theory Spec2Isabelle
  imports Complex_Main "HOL-Library.AList"
begin

section \<open>JavaScript values and strings\<close>

text \<open>
  The statement builder treats the values it is handed as opaque, apart from three
  probes: comparison with \<open>null\<close> and \<open>undefined\<close>, \<open>typeof\<close>/\<open>Array.isArray\<close>,
  and property lookup on objects. The value universe below has what these probes
  distinguish. A number is carried as the real number that is its value (the code
  never computes with numbers: it passes them on as parameters and prints them); an
  object is the list of its own enumerable string-keyed properties in the order
  \<open>Object.entries\<close> yields them.
\<close>

datatype jsval =
    Undefined
  | Null
  | Bool bool
  | Num real
  | Str string
  | Arr "jsval list"
  | Obj "(string \<times> jsval) list"

type_synonym obj = "(string \<times> jsval) list"

text \<open>Property read \<open>o.k\<close> on an object: \<open>undefined\<close> when the key is missing.\<close>

definition get :: "obj \<Rightarrow> string \<Rightarrow> jsval" where
  "get ob k = (case map_of ob k of None \<Rightarrow> Undefined | Some v \<Rightarrow> v)"

text \<open>\<open>Array.prototype.join\<close> on an array of strings.\<close>

fun join :: "string \<Rightarrow> string list \<Rightarrow> string" where
  "join sep [] = []"
| "join sep [x] = x"
| "join sep (x # y # ys) = x @ sep @ join sep (y # ys)"

text \<open>
  Errors: \<open>new Error(msg)\<close> thrown by this code, the \<open>TypeError\<close> of the JavaScript
  runtime, and an error reported by the storage engine, which this code passes on.
\<close>

datatype error = Error string | TypeError | EngineError string

section \<open>Types.ts\<close>

datatype direction = ASC | DESC

fun direction_str :: "direction \<Rightarrow> string" where
  "direction_str ASC = ''ASC''"
| "direction_str DESC = ''DESC''"

text \<open>
  \<open>FindOptions\<close>; \<open>UpdateOptions\<close> and \<open>DestroyOptions\<close> carry only the \<open>where\<close>
  field, so the builders for them take that field directly. A field that is
  \<open>undefined\<close> is \<open>None\<close>.
\<close>

record FindOptions =
  where_opt :: "obj option"
  limit :: "real option"
  offset :: "real option"
  order :: "(string \<times> direction) list option"

definition no_options :: FindOptions where
  "no_options = \<lparr>where_opt = None, limit = None, offset = None, order = None\<rparr>"

record ColumnMetadata =
  name :: string
  type :: string
  primaryKey :: "bool option"
  autoIncrement :: "bool option"
  nullable :: "bool option"
  unique :: "bool option"
  defaultValue :: jsval

record TableMetadata =
  tableName :: string
  columns :: "(string \<times> ColumnMetadata) list"

section \<open>QueryBuilder\<close>

subsection \<open>isOperator and buildOperatorCondition\<close>

fun isOperator :: "jsval \<Rightarrow> bool" where
  "isOperator (Obj v) =
     (get v ''$gt'' \<noteq> Undefined \<or>
      get v ''$lt'' \<noteq> Undefined \<or>
      get v ''$gte'' \<noteq> Undefined \<or>
      get v ''$lte'' \<noteq> Undefined \<or>
      get v ''$like'' \<noteq> Undefined \<or>
      get v ''$in'' \<noteq> Undefined \<or>
      get v ''$ne'' \<noteq> Undefined)"
| "isOperator _ = False"

text \<open>
  One \<open>if (operator.$k !== undefined) { conditions.push(...); params.push(...) }\<close>
  block of \<open>buildOperatorCondition\<close>, on the pair of the two arrays it appends to.
\<close>

definition push_operator ::
  "string \<Rightarrow> obj \<Rightarrow> string \<Rightarrow> string \<Rightarrow> string list \<times> jsval list \<Rightarrow> string list \<times> jsval list" where
  "push_operator key operator k fragment st =
     (if get operator k \<noteq> Undefined
      then (fst st @ [key @ fragment], snd st @ [get operator k])
      else st)"

text \<open>
  The last block calls \<open>operator.$in.map\<close>: on a value that is not an array this is
  a call of something that is not a function, a \<open>TypeError\<close>.
\<close>

definition buildOperatorCondition ::
  "string \<Rightarrow> obj \<Rightarrow> jsval list \<Rightarrow> error + (string \<times> jsval list)" where
  "buildOperatorCondition key operator params =
     (let st = ([], params);
          st = push_operator key operator ''$gt'' '' > ?'' st;
          st = push_operator key operator ''$gte'' '' >= ?'' st;
          st = push_operator key operator ''$lt'' '' < ?'' st;
          st = push_operator key operator ''$lte'' '' <= ?'' st;
          st = push_operator key operator ''$ne'' '' != ?'' st;
          st = push_operator key operator ''$like'' '' LIKE ?'' st
      in case get operator ''$in'' of
           Undefined \<Rightarrow> Inr (join '' AND '' (fst st), snd st)
         | Arr xs \<Rightarrow>
             (let placeholders = join '', '' (map (\<lambda>_. ''?'') xs)
              in Inr (join '' AND '' (fst st @ [key @ '' IN ('' @ placeholders @ '')'']),
                      snd st @ xs))
         | _ \<Rightarrow> Inl TypeError)"

subsection \<open>buildWhereClause\<close>

text \<open>
  The \<open>for\<close> loop over \<open>Object.entries(where)\<close>, with the \<open>conditions\<close> array and the
  caller's \<open>params\<close> array as accumulators. A value that \<open>isOperator\<close> accepts is an
  object, so the last branch of the \<open>case\<close> is never taken.
\<close>

fun where_loop ::
  "obj \<Rightarrow> string list \<Rightarrow> jsval list \<Rightarrow> error + (string list \<times> jsval list)" where
  "where_loop [] conditions params = Inr (conditions, params)"
| "where_loop ((key, v) # rest) conditions params =
     (if v = Null \<or> v = Undefined then
        where_loop rest (conditions @ [key @ '' IS NULL'']) params
      else if isOperator v then
        (case v of
           Obj operator \<Rightarrow>
             (case buildOperatorCondition key operator params of
                Inl e \<Rightarrow> Inl e
              | Inr (operatorConditions, params') \<Rightarrow>
                  where_loop rest (conditions @ [operatorConditions]) params')
         | _ \<Rightarrow> Inl TypeError)
      else
        where_loop rest (conditions @ [key @ '' = ?'']) (params @ [v]))"

definition buildWhereClause :: "obj \<Rightarrow> jsval list \<Rightarrow> error + (string \<times> jsval list)" where
  "buildWhereClause wh params =
     (case where_loop wh [] params of
        Inl e \<Rightarrow> Inl e
      | Inr (conditions, params') \<Rightarrow> Inr (join '' AND '' conditions, params'))"

text \<open>
  The block shared by select, update and delete:
  \<open>if (options.where) { const c = buildWhereClause(...); if (c) sql += ` WHERE ${c}` }\<close>.
\<close>

definition append_where ::
  "obj option \<Rightarrow> string \<Rightarrow> jsval list \<Rightarrow> error + (string \<times> jsval list)" where
  "append_where wh sql params =
     (case wh of
        None \<Rightarrow> Inr (sql, params)
      | Some w \<Rightarrow>
          (case buildWhereClause w params of
             Inl e \<Rightarrow> Inl e
           | Inr (whereClause, params') \<Rightarrow>
               Inr (if whereClause \<noteq> [] then sql @ '' WHERE '' @ whereClause else sql,
                    params')))"

subsection \<open>buildSelect, buildInsert, buildUpdate, buildDelete\<close>

definition buildSelect :: "string \<Rightarrow> FindOptions \<Rightarrow> error + (string \<times> jsval list)" where
  "buildSelect table options =
     (case append_where (where_opt options) (''SELECT * FROM '' @ table) [] of
        Inl e \<Rightarrow> Inl e
      | Inr (sql, params) \<Rightarrow>
          (let sql = (case order options of
                        Some ord \<Rightarrow>
                          (if length ord > 0
                           then sql @ '' ORDER BY '' @
                                join '', '' (map (\<lambda>(field, dir). field @ '' '' @ direction_str dir) ord)
                           else sql)
                      | None \<Rightarrow> sql);
               (sql, params) = (case limit options of
                                  Some l \<Rightarrow> (sql @ '' LIMIT ?'', params @ [Num l])
                                | None \<Rightarrow> (sql, params));
               (sql, params) = (case offset options of
                                  Some off \<Rightarrow> (sql @ '' OFFSET ?'', params @ [Num off])
                                | None \<Rightarrow> (sql, params))
           in Inr (sql, params)))"

definition buildInsert :: "string \<Rightarrow> obj \<Rightarrow> string \<times> jsval list" where
  "buildInsert table data =
     (let keys = map fst data;
          vals = map snd data;
          cols = join '', '' keys;
          placeholders = join '', '' (map (\<lambda>_. ''?'') keys)
      in (''INSERT INTO '' @ table @ '' ('' @ cols @ '') VALUES ('' @ placeholders @ '')'', vals))"

definition buildUpdate :: "string \<Rightarrow> obj \<Rightarrow> obj option \<Rightarrow> error + (string \<times> jsval list)" where
  "buildUpdate table data wh =
     (let keys = map fst data;
          vals = map snd data
      in if length keys = 0 then Inl (Error ''No data to update'')
         else
           (let setParts = map (\<lambda>key. key @ '' = ?'') keys;
                sql = ''UPDATE '' @ table @ '' SET '' @ join '', '' setParts
            in append_where wh sql vals))"

definition buildDelete :: "string \<Rightarrow> obj option \<Rightarrow> error + (string \<times> jsval list)" where
  "buildDelete table wh = append_where wh (''DELETE FROM '' @ table) []"


subsection \<open>formatValue and buildCreateTable\<close>

text \<open>
  \<open>String(value)\<close> is a built-in of the language. On a number it prints a double:
  an integer of magnitude below \<open>2^53\<close> as its decimal digits, with a minus sign when
  negative; every other number (a fraction, or a larger magnitude with its rounded
  digits or its exponent, as in \<open>1e+21\<close>) in a notation that the model does not
  compute. That part of the built-in is the parameter \<open>num_str\<close> of the functions
  below. On the other values: \<open>true\<close>/\<open>false\<close>, the elements joined by a comma for
  an array (\<open>null\<close> and \<open>undefined\<close> elements as the empty string), and
  \<open>[object Object]\<close> for a plain object.
\<close>

fun digits :: "nat \<Rightarrow> string" where
  "digits n =
     (if n < 10 then [''0123456789'' ! n]
      else digits (n div 10) @ [''0123456789'' ! (n mod 10)])"

definition safe_integer :: "real \<Rightarrow> bool" where
  "safe_integer x = (x = of_int \<lfloor>x\<rfloor> \<and> \<bar>x\<bar> \<le> 2 ^ 53 - 1)"

definition Number_toString :: "(real \<Rightarrow> string) \<Rightarrow> real \<Rightarrow> string" where
  "Number_toString num_str x =
     (if safe_integer x
      then (if x < 0 then ''-'' @ digits (nat \<lfloor>- x\<rfloor>) else digits (nat \<lfloor>x\<rfloor>))
      else num_str x)"

fun String_js :: "(real \<Rightarrow> string) \<Rightarrow> jsval \<Rightarrow> string" where
  "String_js num_str Undefined = ''undefined''"
| "String_js num_str Null = ''null''"
| "String_js num_str (Bool b) = (if b then ''true'' else ''false'')"
| "String_js num_str (Num x) = Number_toString num_str x"
| "String_js num_str (Str s) = s"
| "String_js num_str (Arr xs) =
     join '','' (map (\<lambda>x. if x = Null \<or> x = Undefined then [] else String_js num_str x) xs)"
| "String_js num_str (Obj ob) = ''[object Object]''"

definition quote :: char where
  "quote = CHR 0x27"

text \<open>\<open>value.replace(/'/g, "''")\<close>: every single quote becomes two.\<close>

definition replace_quotes :: "string \<Rightarrow> string" where
  "replace_quotes s = concat (map (\<lambda>c. if c = quote then [quote, quote] else [c]) s)"

definition formatValue :: "(real \<Rightarrow> string) \<Rightarrow> jsval \<Rightarrow> string" where
  "formatValue num_str v =
     (case v of
        Str s \<Rightarrow> [quote] @ replace_quotes s @ [quote]
      | _ \<Rightarrow> if v = Null then ''NULL'' else String_js num_str v)"

text \<open>The body of the \<open>columns.map\<close> callback; \<open>d\<close> is the source's \<open>def\<close>.\<close>

definition columnDef :: "(real \<Rightarrow> string) \<Rightarrow> ColumnMetadata \<Rightarrow> string" where
  "columnDef num_str col =
     (let d = name col @ '' '' @ type col;
          d = (if primaryKey col = Some True
               then (let d = d @ '' PRIMARY KEY''
                     in if autoIncrement col = Some True then d @ '' AUTOINCREMENT'' else d)
               else d);
          d = (if nullable col = Some False then d @ '' NOT NULL'' else d);
          d = (if unique col = Some True then d @ '' UNIQUE'' else d);
          d = (if defaultValue col \<noteq> Undefined
               then d @ '' DEFAULT '' @ formatValue num_str (defaultValue col) else d)
      in d)"

definition buildCreateTable ::
  "(real \<Rightarrow> string) \<Rightarrow> string \<Rightarrow> ColumnMetadata list \<Rightarrow> string" where
  "buildCreateTable num_str table cols =
     ''CREATE TABLE IF NOT EXISTS '' @ table @ '' (''
       @ join '', '' (map (columnDef num_str) cols) @ '')''"

section \<open>MetadataStorage\<close>

text \<open>
  The static \<open>tables\<close> map, keyed by class name. The \<open>columns\<close> of a table are a
  JavaScript \<open>Map\<close>: iteration is in insertion order and \<open>set\<close> on a key that is
  present keeps its position, which is what \<open>AList.update\<close> does on an association
  list. The functions take the class name that the source reads from its \<open>target\<close>
  (\<open>target.name\<close> for a class, \<open>target.constructor.name\<close> for a prototype).
\<close>

type_synonym registry = "string \<Rightarrow> TableMetadata option"

text \<open>\<open>String.prototype.toLowerCase\<close> on ASCII text.\<close>

definition toLowerCase :: "string \<Rightarrow> string" where
  "toLowerCase s =
     map (\<lambda>c. case map_of (zip ''ABCDEFGHIJKLMNOPQRSTUVWXYZ'' ''abcdefghijklmnopqrstuvwxyz'') c of
                 Some l \<Rightarrow> l | None \<Rightarrow> c) s"

definition registerTable :: "string \<Rightarrow> string \<Rightarrow> registry \<Rightarrow> registry" where
  "registerTable className tName tables =
     (case tables className of
        None \<Rightarrow> tables(className \<mapsto> \<lparr>tableName = tName, columns = []\<rparr>)
      | Some metadata \<Rightarrow> tables(className \<mapsto> metadata\<lparr>tableName := tName\<rparr>))"

definition registerColumn ::
  "string \<Rightarrow> string \<Rightarrow> ColumnMetadata \<Rightarrow> registry \<Rightarrow> registry" where
  "registerColumn className propertyKey metadata tables =
     (let tables = (case tables className of
                      None \<Rightarrow> tables(className \<mapsto>
                                \<lparr>tableName = toLowerCase className, columns = []\<rparr>)
                    | Some _ \<Rightarrow> tables)
      in case tables className of
           None \<Rightarrow> tables
         | Some tableMetadata \<Rightarrow>
             tables(className \<mapsto>
               tableMetadata\<lparr>columns := AList.update propertyKey metadata (columns tableMetadata)\<rparr>))"

definition getTableMetadata :: "string \<Rightarrow> registry \<Rightarrow> TableMetadata option" where
  "getTableMetadata className tables = tables className"

definition clear :: registry where
  "clear = Map.empty"

text \<open>\<open>existing?.columns.get(propName)\<close>, as the decorators read it.\<close>

definition existingColumn :: "string \<Rightarrow> string \<Rightarrow> registry \<Rightarrow> ColumnMetadata option" where
  "existingColumn className propName tables =
     (case getTableMetadata className tables of
        None \<Rightarrow> None
      | Some existing \<Rightarrow> map_of (columns existing) propName)"

section \<open>Decorators\<close>

record ColumnOptions =
  type_opt :: "string option"
  name_opt :: "string option"
  nullable_opt :: "bool option"
  unique_opt :: "bool option"
  defaultValue_opt :: jsval

datatype column_arg = NoArg | TypeArg string | OptionsArg ColumnOptions

definition inferSQLiteType :: "string \<Rightarrow> string" where
  "inferSQLiteType typeName =
     (let t = toLowerCase typeName
      in if t = ''number'' then ''INTEGER''
         else if t = ''string'' then ''TEXT''
         else if t = ''boolean'' then ''INTEGER''
         else ''TEXT'')"

text \<open>
  \<open>tsType\<close> is the name of the \<open>design:type\<close> that \<open>Reflect.getMetadata\<close> reports for
  the property, \<open>None\<close> when there is no reflection metadata. A string that is empty
  is falsy, like \<open>undefined\<close>.
\<close>

definition truthy_str :: "string option \<Rightarrow> bool" where
  "truthy_str s = (case s of None \<Rightarrow> False | Some x \<Rightarrow> x \<noteq> [])"

text \<open>\<open>a || b\<close> on strings that may be \<open>undefined\<close>.\<close>

definition or_str :: "string option \<Rightarrow> string \<Rightarrow> string" where
  "or_str a b = (case a of None \<Rightarrow> b | Some x \<Rightarrow> if x \<noteq> [] then x else b)"

definition Column ::
  "column_arg \<Rightarrow> string option \<Rightarrow> string \<Rightarrow> string \<Rightarrow> registry \<Rightarrow> registry" where
  "Column typeOrOptions tsType className propName tables =
     (let options = (case typeOrOptions of
                       TypeArg t \<Rightarrow> \<lparr>type_opt = Some t, name_opt = None, nullable_opt = None,
                                     unique_opt = None, defaultValue_opt = Undefined\<rparr>
                     | OptionsArg opts \<Rightarrow> opts
                     | NoArg \<Rightarrow> \<lparr>type_opt = None, name_opt = None, nullable_opt = None,
                                 unique_opt = None, defaultValue_opt = Undefined\<rparr>);
          options = (case tsType of
                       Some tn \<Rightarrow>
                         (if \<not> truthy_str (type_opt options)
                          then options\<lparr>type_opt := Some (inferSQLiteType tn)\<rparr>
                          else options)
                     | None \<Rightarrow> options);
          metadata = \<lparr>name = or_str (name_opt options) propName,
                      type = or_str (type_opt options) ''TEXT'',
                      primaryKey = None,
                      autoIncrement = None,
                      nullable = nullable_opt options,
                      unique = unique_opt options,
                      defaultValue = defaultValue_opt options\<rparr>
      in registerColumn className propName metadata tables)"

definition PrimaryKey :: "bool \<Rightarrow> string \<Rightarrow> string \<Rightarrow> registry \<Rightarrow> registry" where
  "PrimaryKey autoInc className propName tables =
     registerColumn className propName
       \<lparr>name = propName, type = ''INTEGER'', primaryKey = Some True,
        autoIncrement = Some autoInc, nullable = Some False, unique = None,
        defaultValue = Undefined\<rparr> tables"

definition AutoIncrement :: "string \<Rightarrow> string \<Rightarrow> registry \<Rightarrow> registry" where
  "AutoIncrement = PrimaryKey True"

text \<open>The object \<open>existingColumn || { name: propName, type: "TEXT" }\<close> that is spread.\<close>

definition existing_or_text :: "string \<Rightarrow> string \<Rightarrow> registry \<Rightarrow> ColumnMetadata" where
  "existing_or_text className propName tables =
     (case existingColumn className propName tables of
        Some c \<Rightarrow> c
      | None \<Rightarrow> \<lparr>name = propName, type = ''TEXT'', primaryKey = None, autoIncrement = None,
                  nullable = None, unique = None, defaultValue = Undefined\<rparr>)"

definition NotNull :: "string \<Rightarrow> string \<Rightarrow> registry \<Rightarrow> registry" where
  "NotNull className propName tables =
     registerColumn className propName
       ((existing_or_text className propName tables)\<lparr>nullable := Some False\<rparr>) tables"

definition Unique :: "string \<Rightarrow> string \<Rightarrow> registry \<Rightarrow> registry" where
  "Unique className propName tables =
     registerColumn className propName
       ((existing_or_text className propName tables)\<lparr>unique := Some True\<rparr>) tables"

definition Default :: "jsval \<Rightarrow> string \<Rightarrow> string \<Rightarrow> registry \<Rightarrow> registry" where
  "Default v className propName tables =
     registerColumn className propName
       ((existing_or_text className propName tables)\<lparr>defaultValue := v\<rparr>) tables"

section \<open>Database and Model\<close>

text \<open>
  The storage engine is outside this code. It is a parameter: given the statements
  executed so far and the next one, it answers with rows and counters or with an
  error message (\<open>getAllAsync\<close> for a statement that starts with \<open>SELECT\<close>,
  \<open>runAsync\<close> for the others, both inside this parameter). \<open>Database.execute\<close>
  refuses to run before \<open>initialize\<close>; otherwise it hands the statement to the engine
  and rethrows what the engine throws, and the model records the statement.
\<close>

record QueryResult =
  rows :: "jsval list"
  insertId :: "int option"
  rowsAffected :: "int option"

type_synonym statement = "string \<times> jsval list"

type_synonym engine = "statement list \<Rightarrow> statement \<Rightarrow> string + QueryResult"

record Database =
  initialized :: bool
  executed :: "statement list"

definition execute ::
  "engine \<Rightarrow> string \<Rightarrow> jsval list \<Rightarrow> Database \<Rightarrow> (error + QueryResult) \<times> Database" where
  "execute eng sql params db =
     (if \<not> initialized db then
        (Inl (Error ''Database not initialized. Call Database.getInstance().initialize() first.''), db)
      else
        (case eng (executed db) (sql, params) of
           Inl msg \<Rightarrow> Inl (EngineError msg)
         | Inr r \<Rightarrow> Inr r,
         db\<lparr>executed := executed db @ [(sql, params)]\<rparr>))"

text \<open>A model class: its name and its static \<open>tableName\<close> property, if set.\<close>

record ModelClass =
  className :: string
  static_tableName :: "string option"

definition getTableName :: "registry \<Rightarrow> ModelClass \<Rightarrow> string" where
  "getTableName tables cls =
     (case getTableMetadata (className cls) tables of
        Some metadata \<Rightarrow> tableName metadata
      | None \<Rightarrow>
          or_str (static_tableName cls) (toLowerCase (className cls)))"

definition findAll ::
  "engine \<Rightarrow> registry \<Rightarrow> ModelClass \<Rightarrow> FindOptions option \<Rightarrow> Database
     \<Rightarrow> (error + jsval list) \<times> Database" where
  "findAll eng tables cls options db =
     (let tName = getTableName tables cls
      in case buildSelect tName (case options of Some opts \<Rightarrow> opts | None \<Rightarrow> no_options) of
           Inl e \<Rightarrow> (Inl e, db)
         | Inr (sql, params) \<Rightarrow>
             (case execute eng sql params db of
                (Inl e, db') \<Rightarrow> (Inl e, db')
              | (Inr result, db') \<Rightarrow> (Inr (rows result), db')))"

definition findOne ::
  "engine \<Rightarrow> registry \<Rightarrow> ModelClass \<Rightarrow> FindOptions option \<Rightarrow> Database
     \<Rightarrow> (error + jsval) \<times> Database" where
  "findOne eng tables cls options db =
     (let limitedOptions = (case options of Some opts \<Rightarrow> opts | None \<Rightarrow> no_options)\<lparr>limit := Some 1\<rparr>
      in case findAll eng tables cls (Some limitedOptions) db of
           (Inl e, db') \<Rightarrow> (Inl e, db')
         | (Inr results, db') \<Rightarrow>
             (if length results > 0 then Inr (results ! 0) else Inr Null, db'))"

definition no_columns_error :: "ModelClass \<Rightarrow> error" where
  "no_columns_error cls =
     Error (''No columns defined for model '' @ className cls @ ''. Use @Column decorators.'')"

definition sync ::
  "engine \<Rightarrow> (real \<Rightarrow> string) \<Rightarrow> registry \<Rightarrow> ModelClass \<Rightarrow> bool option \<Rightarrow> Database
     \<Rightarrow> (error + unit) \<times> Database" where
  "sync eng num_str tables cls force db =
     (let tName = getTableName tables cls
      in case getTableMetadata (className cls) tables of
           None \<Rightarrow> (Inl (no_columns_error cls), db)
         | Some metadata \<Rightarrow>
             (if length (columns metadata) = 0 then (Inl (no_columns_error cls), db)
              else
                (case (if force = Some True
                       then (case execute eng (''DROP TABLE IF EXISTS '' @ tName) [] db of
                               (Inl e, db') \<Rightarrow> (Inl e, db')
                             | (Inr _, db') \<Rightarrow> (Inr (), db'))
                       else (Inr (), db)) of
                   (Inl e, db') \<Rightarrow> (Inl e, db')
                 | (Inr _, db') \<Rightarrow>
                     (let cols = map (\<lambda>(nm, col).
                                   \<lparr>name = or_str (Some (name col)) nm,
                                    type = type col,
                                    primaryKey = primaryKey col,
                                    autoIncrement = autoIncrement col,
                                    nullable = nullable col,
                                    unique = unique col,
                                    defaultValue = defaultValue col\<rparr>) (columns metadata);
                          createTableSql = buildCreateTable num_str tName cols
                      in case execute eng createTableSql [] db' of
                           (Inl e, db'') \<Rightarrow> (Inl e, db'')
                         | (Inr _, db'') \<Rightarrow> (Inr (), db'')))))"

section \<open>The builder's output, described clause by clause\<close>

text \<open>
  The definitions of this section do not come from the code: they describe the SQL
  text and the parameters declaratively, fragment by fragment, and the theorems
  below show that the builder computes exactly that.
\<close>

text \<open>
  The operator keys in the order in which \<open>buildOperatorCondition\<close> is to emit them,
  the SQL symbol of each, and the fragment with its parameters that one key
  contributes: \<open><col> <symbol> ?\<close> with the operand, or for \<open>$in\<close> one placeholder and
  one parameter per element.
\<close>

definition operator_key_order :: "string list" where
  "operator_key_order = [''$gt'', ''$gte'', ''$lt'', ''$lte'', ''$ne'', ''$like'', ''$in'']"

definition operator_symbol :: "string \<Rightarrow> string" where
  "operator_symbol k =
     (case map_of [(''$gt'', ''>''), (''$gte'', ''>=''), (''$lt'', ''<''), (''$lte'', ''<=''),
                   (''$ne'', ''!=''), (''$like'', ''LIKE''), (''$in'', ''IN'')] k of
        Some s \<Rightarrow> s | None \<Rightarrow> [])"

definition in_elements :: "jsval \<Rightarrow> jsval list" where
  "in_elements v = (case v of Arr xs \<Rightarrow> xs | _ \<Rightarrow> [])"

definition operator_fragment :: "string \<Rightarrow> string \<Rightarrow> jsval \<Rightarrow> string \<times> jsval list" where
  "operator_fragment col k v =
     (if k = ''$in''
      then (col @ '' IN ('' @ join '', '' (replicate (length (in_elements v)) ''?'') @ '')'',
            in_elements v)
      else (col @ '' '' @ operator_symbol k @ '' ?'', [v]))"

definition operator_fragments :: "string \<Rightarrow> obj \<Rightarrow> (string \<times> jsval list) list" where
  "operator_fragments col operator =
     map (\<lambda>k. operator_fragment col k (get operator k))
         (filter (\<lambda>k. get operator k \<noteq> Undefined) operator_key_order)"

text \<open>
  The type \<open>Operator\<close> declares \<open>$in?: any[]\<close>: when set, it is an array. A where
  object is well typed when each of its object values respects that.
\<close>

definition in_typed :: "obj \<Rightarrow> bool" where
  "in_typed operator =
     (case get operator ''$in'' of Undefined \<Rightarrow> True | Arr _ \<Rightarrow> True | _ \<Rightarrow> False)"

definition value_typed :: "jsval \<Rightarrow> bool" where
  "value_typed v = (case v of Obj operator \<Rightarrow> in_typed operator | _ \<Rightarrow> True)"

definition where_typed :: "obj \<Rightarrow> bool" where
  "where_typed wh = list_all (\<lambda>(k, v). value_typed v) wh"

text \<open>
  What one entry of the where object contributes: \<open>IS NULL\<close> and no parameter for
  \<open>null\<close> or \<open>undefined\<close>, the operator fragments joined with \<open>AND\<close> for an operator
  object, and \<open><col> = ?\<close> with the value otherwise. \<open>where_sql\<close> and \<open>where_params\<close>
  put the entries together.
\<close>

definition entry_fragment :: "string \<times> jsval \<Rightarrow> string \<times> jsval list" where
  "entry_fragment e =
     (case e of (col, v) \<Rightarrow>
        if v = Null \<or> v = Undefined then (col @ '' IS NULL'', [])
        else if isOperator v then
          (case v of
             Obj operator \<Rightarrow>
               (join '' AND '' (map fst (operator_fragments col operator)),
                concat (map snd (operator_fragments col operator)))
           | _ \<Rightarrow> ([], []))
        else (col @ '' = ?'', [v]))"

definition options_typed :: "obj option \<Rightarrow> bool" where
  "options_typed wh = (case wh of None \<Rightarrow> True | Some w \<Rightarrow> where_typed w)"

definition where_sql :: "obj option \<Rightarrow> string" where
  "where_sql wh =
     (case wh of None \<Rightarrow> [] | Some w \<Rightarrow> join '' AND '' (map (fst \<circ> entry_fragment) w))"

definition where_params :: "obj option \<Rightarrow> jsval list" where
  "where_params wh =
     (case wh of None \<Rightarrow> [] | Some w \<Rightarrow> concat (map (snd \<circ> entry_fragment) w))"

definition order_sql :: "(string \<times> direction) list \<Rightarrow> string" where
  "order_sql ord = join '', '' (map (\<lambda>(field, dir). field @ '' '' @ direction_str dir) ord)"

text \<open>
  The number of \<open>?\<close> characters of a text, and names free of them.
\<close>

definition count_q :: "string \<Rightarrow> nat" where
  "count_q s = count_list s (CHR ''?'')"

definition no_q :: "string \<Rightarrow> bool" where
  "no_q s = (count_q s = 0)"

definition keys_no_q :: "(string \<times> 'a) list \<Rightarrow> bool" where
  "keys_no_q kvs = list_all (\<lambda>e. no_q (fst e)) kvs"

definition names_no_q :: "string \<Rightarrow> FindOptions \<Rightarrow> bool" where
  "names_no_q table opts =
     (no_q table
      \<and> (case where_opt opts of None \<Rightarrow> True | Some wh \<Rightarrow> keys_no_q wh)
      \<and> (case order opts of None \<Rightarrow> True | Some ord \<Rightarrow> keys_no_q ord))"

text \<open>
  The constraints that follow \<open><name> <type>\<close> in a column definition, in order.
\<close>

definition column_suffixes :: "(real \<Rightarrow> string) \<Rightarrow> ColumnMetadata \<Rightarrow> string list" where
  "column_suffixes num_str col =
     (if primaryKey col = Some True
      then ['' PRIMARY KEY'' @ (if autoIncrement col = Some True then '' AUTOINCREMENT'' else [])]
      else [])
     @ (if nullable col = Some False then ['' NOT NULL''] else [])
     @ (if unique col = Some True then ['' UNIQUE''] else [])
     @ (if defaultValue col \<noteq> Undefined
        then ['' DEFAULT '' @ formatValue num_str (defaultValue col)] else [])"

text \<open>
  Reading the body of a single-quoted SQL string literal: two quotes stand for one
  quote character, a quote on its own is not part of a body.
\<close>

fun sql_string_body :: "string \<Rightarrow> string option" where
  "sql_string_body [] = Some []"
| "sql_string_body [c] = (if c = quote then None else Some [c])"
| "sql_string_body (c # d # cs) =
     (if c = quote
      then (if d = quote then map_option ((#) quote) (sql_string_body cs) else None)
      else map_option ((#) c) (sql_string_body (d # cs)))"

text \<open>Reading a decimal numeral back.\<close>

definition digit_value :: "char \<Rightarrow> nat" where
  "digit_value c = (case map_of (zip ''0123456789'' [0, 1, 2, 3, 4, 5, 6, 7, 8, 9]) c of
                      Some d \<Rightarrow> d | None \<Rightarrow> 0)"

definition decimal_value :: "string \<Rightarrow> nat" where
  "decimal_value s = foldl (\<lambda>a c. 10 * a + digit_value c) 0 s"

text \<open>The columns handed to buildCreateTable by sync: in the order of the \<open>columns\<close> map.\<close>

definition sync_columns :: "TableMetadata \<Rightarrow> ColumnMetadata list" where
  "sync_columns metadata =
     map (\<lambda>(nm, col). col\<lparr>name := (if name col = [] then nm else name col)\<rparr>) (columns metadata)"

text \<open>
  The model has a schema with at least one column; the two statements sync may
  execute; the property names of a model in the order of its columns map.
\<close>

definition has_columns :: "registry \<Rightarrow> ModelClass \<Rightarrow> bool" where
  "has_columns tables cls =
     (case getTableMetadata (className cls) tables of
        None \<Rightarrow> False
      | Some metadata \<Rightarrow> columns metadata \<noteq> [])"

definition drop_statement :: "registry \<Rightarrow> ModelClass \<Rightarrow> statement" where
  "drop_statement tables cls = (''DROP TABLE IF EXISTS '' @ getTableName tables cls, [])"

definition create_statement ::
  "(real \<Rightarrow> string) \<Rightarrow> registry \<Rightarrow> ModelClass \<Rightarrow> statement" where
  "create_statement num_str tables cls =
     (case getTableMetadata (className cls) tables of
        None \<Rightarrow> ([], [])
      | Some metadata \<Rightarrow>
          (buildCreateTable num_str (getTableName tables cls) (sync_columns metadata), []))"

definition column_keys :: "string \<Rightarrow> registry \<Rightarrow> string list" where
  "column_keys cname tables =
     (case tables cname of None \<Rightarrow> [] | Some metadata \<Rightarrow> map fst (columns metadata))"

text \<open>
  The first row or \<open>null\<close>, and a descriptor with its limit set.
\<close>

definition first_or_null :: "jsval list \<Rightarrow> jsval" where
  "first_or_null results = (case results of [] \<Rightarrow> Null | r # _ \<Rightarrow> r)"

definition with_limit :: "FindOptions option \<Rightarrow> real \<Rightarrow> FindOptions" where
  "with_limit options l =
     (case options of
        None \<Rightarrow> \<lparr>where_opt = None, limit = Some l, offset = None, order = None\<rparr>
      | Some opts \<Rightarrow> \<lparr>where_opt = where_opt opts, limit = Some l, offset = offset opts,
                      order = order opts\<rparr>)"

text \<open>
  The built-in's output on three numbers that are not safe integers, for the concrete
  instances below.
\<close>

definition num_str_sample :: "real \<Rightarrow> string" where
  "num_str_sample x =
     (if x = 1 / 2 then ''0.5'' else if x = 10 ^ 21 then ''1e+21'' else ''9223372036854776000'')"

text \<open>The options object that the argument of \<open>@Column\<close> stands for.\<close>

definition column_options :: "column_arg \<Rightarrow> ColumnOptions" where
  "column_options arg =
     (case arg of
        OptionsArg opts \<Rightarrow> opts
      | TypeArg t \<Rightarrow> \<lparr>type_opt = Some t, name_opt = None, nullable_opt = None,
                      unique_opt = None, defaultValue_opt = Undefined\<rparr>
      | NoArg \<Rightarrow> \<lparr>type_opt = None, name_opt = None, nullable_opt = None,
                  unique_opt = None, defaultValue_opt = Undefined\<rparr>)"

text \<open>
  An engine that accepts every statement, and the registry that the decorators of a
  small model leave behind; both are used as concrete instances below.
\<close>

definition accepting_engine :: engine where
  "accepting_engine history st = Inr \<lparr>rows = [], insertId = None, rowsAffected = Some 0\<rparr>"

definition user_tables :: registry where
  "user_tables =
     registerTable ''User'' ''users''
       (NotNull ''User'' ''name''
          (Column (TypeArg ''TEXT'') None ''User'' ''name''
             (PrimaryKey True ''User'' ''id'' Map.empty)))"

section \<open>Properties of the statement builder\<close>

lemma map_const_replicate: "map (\<lambda>_. c) xs = replicate (length xs) c"
  by (induction xs) auto

lemma push_operator_spec:
  "push_operator key operator k fragment st =
     (fst st @ (if get operator k \<noteq> Undefined then [key @ fragment] else []),
      snd st @ (if get operator k \<noteq> Undefined then [get operator k] else []))"
  by (simp add: push_operator_def)

lemma buildOperatorCondition_fragments:
  assumes "in_typed operator"
  shows "buildOperatorCondition col operator ps =
      Inr (join '' AND '' (map fst (operator_fragments col operator)),
           ps @ concat (map snd (operator_fragments col operator)))"
proof (cases "get operator ''$in''")
  case Undefined
  then show ?thesis
    by (simp add: buildOperatorCondition_def push_operator_spec operator_fragments_def
        operator_key_order_def operator_fragment_def operator_symbol_def Let_def)
next
  case (Arr xs)
  then show ?thesis
    by (simp add: buildOperatorCondition_def push_operator_spec operator_fragments_def
        operator_key_order_def operator_fragment_def operator_symbol_def Let_def
        in_elements_def map_const_replicate)
qed (use assms in \<open>simp_all add: in_typed_def\<close>)

lemma where_loop_fragments:
  "where_typed wh \<Longrightarrow>
   where_loop wh cs ps =
     Inr (cs @ map (fst \<circ> entry_fragment) wh, ps @ concat (map (snd \<circ> entry_fragment) wh))"
proof (induction wh arbitrary: cs ps)
  case Nil
  then show ?case by simp
next
  case (Cons e wh)
  obtain k v where e: "e = (k, v)" by (cases e)
  from Cons.prems have typed: "value_typed v" "where_typed wh"
    by (simp_all add: where_typed_def e)
  show ?case
  proof (cases "v = Null \<or> v = Undefined")
    case True
    then show ?thesis
      using Cons.IH [OF typed(2)] by (auto simp: e entry_fragment_def)
  next
    case nonnull: False
    show ?thesis
    proof (cases "isOperator v")
      case True
      then obtain operator where v: "v = Obj operator" by (cases v) auto
      with typed have "in_typed operator" by (simp add: value_typed_def)
      then show ?thesis
        using Cons.IH [OF typed(2)] True nonnull
        by (simp add: e v entry_fragment_def buildOperatorCondition_fragments)
    next
      case False
      then show ?thesis
        using Cons.IH [OF typed(2)] nonnull by (simp add: e entry_fragment_def)
    qed
  qed
qed

lemma buildWhereClause_fragments:
  "where_typed wh \<Longrightarrow>
   buildWhereClause wh ps =
     Inr (join '' AND '' (map (fst \<circ> entry_fragment) wh),
          ps @ concat (map (snd \<circ> entry_fragment) wh))"
  by (simp add: buildWhereClause_def where_loop_fragments)

lemma count_q_append [simp]: "count_q (xs @ ys) = count_q xs + count_q ys"
  by (simp add: count_q_def)

lemma count_q_Nil [simp]: "count_q [] = 0"
  by (simp add: count_q_def)

lemma count_q_Cons [simp]: "count_q (c # s) = (if c = CHR ''?'' then 1 else 0) + count_q s"
  by (simp add: count_q_def)

lemma count_q_join:
  "count_q sep = 0 \<Longrightarrow> count_q (join sep xs) = sum_list (map count_q xs)"
  by (induction sep xs rule: join.induct) simp_all

lemma count_q_placeholders: "count_q (join '', '' (replicate n ''?'')) = n"
proof -
  have "count_q '', '' = 0" by simp
  then have "count_q (join '', '' (replicate n ''?'')) = sum_list (map count_q (replicate n ''?''))"
    by (rule count_q_join)
  also have "\<dots> = n" by (induction n) simp_all
  finally show ?thesis .
qed

lemma count_q_operator_fragment:
  assumes "count_q col = 0" "k \<in> set operator_key_order"
  shows "count_q (fst (operator_fragment col k v)) = length (snd (operator_fragment col k v))"
proof (cases "k = ''$in''")
  case True
  then show ?thesis
    using assms(1) by (simp add: operator_fragment_def count_q_placeholders)
next
  case False
  have "count_q (operator_symbol k) = 0"
    using assms(2) by (auto simp: operator_key_order_def operator_symbol_def)
  then show ?thesis
    using assms(1) False by (simp add: operator_fragment_def)
qed

lemma sum_list_concat_length:
  "(\<And>x. x \<in> set xs \<Longrightarrow> f (fst x) = length (snd x)) \<Longrightarrow>
   sum_list (map f (map fst xs)) = length (concat (map snd xs))"
  by (induction xs) auto

lemma count_q_operator_fragments:
  assumes "count_q col = 0"
  shows "count_q (join '' AND '' (map fst (operator_fragments col operator)))
         = length (concat (map snd (operator_fragments col operator)))"
proof -
  have "count_q '' AND '' = 0" by simp
  then have "count_q (join '' AND '' (map fst (operator_fragments col operator)))
      = sum_list (map count_q (map fst (operator_fragments col operator)))"
    by (rule count_q_join)
  also have "\<dots> = length (concat (map snd (operator_fragments col operator)))"
  proof (rule sum_list_concat_length)
    fix x assume "x \<in> set (operator_fragments col operator)"
    then obtain k where "k \<in> set operator_key_order" "x = operator_fragment col k (get operator k)"
      by (auto simp: operator_fragments_def)
    then show "count_q (fst x) = length (snd x)"
      using count_q_operator_fragment [OF assms] by simp
  qed
  finally show ?thesis .
qed

lemma count_q_entry_fragment:
  assumes "count_q (fst e) = 0"
  shows "count_q (fst (entry_fragment e)) = length (snd (entry_fragment e))"
proof -
  obtain k v where e: "e = (k, v)" by (cases e)
  have lits: "count_q '' IS NULL'' = 0" "count_q '' = ?'' = 1"
    by simp_all
  show ?thesis
  proof (cases "isOperator v")
    case True
    then obtain operator where "v = Obj operator" by (cases v) auto
    then show ?thesis
      using True assms count_q_operator_fragments [of k operator]
      by (simp add: e entry_fragment_def)
  next
    case False
    then show ?thesis
      using assms lits by (simp add: e entry_fragment_def)
  qed
qed

lemma count_q_where_fragments:
  assumes "list_all (\<lambda>e. count_q (fst e) = 0) wh"
  shows "count_q (join '' AND '' (map (fst \<circ> entry_fragment) wh))
         = length (concat (map (snd \<circ> entry_fragment) wh))"
proof -
  have "count_q '' AND '' = 0" by simp
  then have "count_q (join '' AND '' (map (fst \<circ> entry_fragment) wh))
      = sum_list (map count_q (map (fst \<circ> entry_fragment) wh))"
    by (rule count_q_join)
  also have "\<dots> = length (concat (map (snd \<circ> entry_fragment) wh))"
    using assms by (induction wh) (simp_all add: count_q_entry_fragment)
  finally show ?thesis .
qed

lemma append_where_fragments:
  "options_typed wh \<Longrightarrow>
   append_where wh sql ps =
     Inr (sql @ (if where_sql wh = [] then [] else '' WHERE '' @ where_sql wh),
          ps @ where_params wh)"
  by (cases wh)
     (simp_all add: append_where_def options_typed_def where_sql_def where_params_def
        buildWhereClause_fragments)

lemma join_nonempty: "xs \<noteq> [] \<Longrightarrow> hd xs \<noteq> [] \<Longrightarrow> join sep xs \<noteq> []"
  by (induction sep xs rule: join.induct) auto

text \<open>
  C2. For a column whose where-value is an operator object, the WHERE-clause builder
  emits one fragment per operator key that is set, joined with \<open>AND\<close>, in the fixed
  order \<open>$gt, $gte, $lt, $lte, $ne, $like, $in\<close>, and pushes each operator's
  parameters in that same order (\<open>operator_fragments\<close> lists the fragments that way).
  In particular \<open>{ $gte: 10, $lte: 20 }\<close> on column \<open>age\<close> yields
  \<open>age >= ? AND age <= ?\<close> with parameters \<open>[10, 20]\<close>, and an in-list of length
  \<open>n\<close> yields \<open><col> IN (?, ..., ?)\<close> with \<open>n\<close> placeholders and the elements as
  parameters in order. The operator object is as its type has it: \<open>$in\<close>, when set,
  is an array.
\<close>

theorem operator_set_expansion:
  assumes "isOperator (Obj operator)" and "in_typed operator"
  shows "buildWhereClause [(col, Obj operator)] ps =
           Inr (join '' AND '' (map fst (operator_fragments col operator)),
                ps @ concat (map snd (operator_fragments col operator)))
       \<and> operator_fragments col operator \<noteq> []
       \<and> (where_typed before \<and> where_typed after \<longrightarrow>
            buildWhereClause (before @ (col, Obj operator) # after) ps =
              Inr (join '' AND ''
                     (map (fst \<circ> entry_fragment) before
                      @ [join '' AND '' (map fst (operator_fragments col operator))]
                      @ map (fst \<circ> entry_fragment) after),
                   ps @ concat (map (snd \<circ> entry_fragment) before)
                      @ concat (map snd (operator_fragments col operator))
                      @ concat (map (snd \<circ> entry_fragment) after)))
       \<and> buildWhereClause [(''age'', Obj [(''$gte'', Num 10), (''$lte'', Num 20)])] []
           = Inr (''age >= ? AND age <= ?'', [Num 10, Num 20])
       \<and> buildWhereClause [(col, Obj [(''$in'', Arr xs)])] ps
           = Inr (col @ '' IN ('' @ join '', '' (replicate (length xs) ''?'') @ '')'', ps @ xs)"
proof -
  have typed: "where_typed [(col, Obj operator)]"
    using assms(2) by (simp add: where_typed_def value_typed_def)
  have one: "buildWhereClause [(col, Obj operator)] ps =
           Inr (join '' AND '' (map fst (operator_fragments col operator)),
                ps @ concat (map snd (operator_fragments col operator)))"
    using assms(1) by (simp add: buildWhereClause_fragments [OF typed] entry_fragment_def)
  have two: "operator_fragments col operator \<noteq> []"
    using assms(1) by (auto simp: operator_fragments_def operator_key_order_def filter_empty_conv)
  have three: "buildWhereClause [(''age'', Obj [(''$gte'', Num 10), (''$lte'', Num 20)])] []
           = Inr (''age >= ? AND age <= ?'', [Num 10, Num 20])"
    by (simp add: buildWhereClause_def buildOperatorCondition_def push_operator_def get_def)
  have entry: "entry_fragment (col, Obj operator)
      = (join '' AND '' (map fst (operator_fragments col operator)),
         concat (map snd (operator_fragments col operator)))"
    using assms(1) by (simp add: entry_fragment_def)
  have among: "where_typed before \<and> where_typed after \<longrightarrow>
            buildWhereClause (before @ (col, Obj operator) # after) ps =
              Inr (join '' AND ''
                     (map (fst \<circ> entry_fragment) before
                      @ [join '' AND '' (map fst (operator_fragments col operator))]
                      @ map (fst \<circ> entry_fragment) after),
                   ps @ concat (map (snd \<circ> entry_fragment) before)
                      @ concat (map snd (operator_fragments col operator))
                      @ concat (map (snd \<circ> entry_fragment) after))"
  proof (intro impI, elim conjE)
    assume "where_typed before" "where_typed after"
    with typed have "where_typed (before @ (col, Obj operator) # after)"
      by (simp add: where_typed_def)
    then show "buildWhereClause (before @ (col, Obj operator) # after) ps =
              Inr (join '' AND ''
                     (map (fst \<circ> entry_fragment) before
                      @ [join '' AND '' (map fst (operator_fragments col operator))]
                      @ map (fst \<circ> entry_fragment) after),
                   ps @ concat (map (snd \<circ> entry_fragment) before)
                      @ concat (map snd (operator_fragments col operator))
                      @ concat (map (snd \<circ> entry_fragment) after))"
      by (simp add: buildWhereClause_fragments entry)
  qed
  have four: "buildWhereClause [(col, Obj [(''$in'', Arr xs)])] ps
           = Inr (col @ '' IN ('' @ join '', '' (replicate (length xs) ''?'') @ '')'', ps @ xs)"
    by (simp add: buildWhereClause_def buildOperatorCondition_def push_operator_def get_def
        map_const_replicate)
  from one two three four among show ?thesis by blast
qed

theorem operator_set_expansion_witness:
  "isOperator (Obj [(''$lte'', Num 20), (''$in'', Arr [Num 1, Num 2]), (''$gt'', Num 3)])
   \<and> in_typed [(''$lte'', Num 20), (''$in'', Arr [Num 1, Num 2]), (''$gt'', Num 3)]
   \<and> buildWhereClause
        [(''age'', Obj [(''$lte'', Num 20), (''$in'', Arr [Num 1, Num 2]), (''$gt'', Num 3)])] [Str ''p'']
       = Inr (''age > ? AND age <= ? AND age IN (?, ?)'',
              [Str ''p'', Num 3, Num 20, Num 1, Num 2])"
proof -
  have h1: "isOperator (Obj [(''$lte'', Num 20), (''$in'', Arr [Num 1, Num 2]), (''$gt'', Num 3)])"
    by (simp add: get_def)
  have h2: "in_typed [(''$lte'', Num 20), (''$in'', Arr [Num 1, Num 2]), (''$gt'', Num 3)]"
    by (simp add: in_typed_def get_def)
  show ?thesis
    using h1 h2 operator_set_expansion [OF h1 h2, of "''age''" "[Str ''p'']" "[]" "[]"]
    by (simp add: operator_fragments_def operator_key_order_def operator_fragment_def
        operator_symbol_def in_elements_def get_def)
qed

lemma buildSelect_fragments:
  assumes "options_typed (where_opt opts)"
  shows "buildSelect table opts =
      Inr (''SELECT * FROM '' @ table
             @ (if where_sql (where_opt opts) = [] then []
                else '' WHERE '' @ where_sql (where_opt opts))
             @ (case order opts of None \<Rightarrow> []
                | Some ord \<Rightarrow> if ord = [] then [] else '' ORDER BY '' @ order_sql ord)
             @ (case limit opts of None \<Rightarrow> [] | Some l \<Rightarrow> '' LIMIT ?'')
             @ (case offset opts of None \<Rightarrow> [] | Some off \<Rightarrow> '' OFFSET ?''),
           where_params (where_opt opts)
             @ (case limit opts of None \<Rightarrow> [] | Some l \<Rightarrow> [Num l])
             @ (case offset opts of None \<Rightarrow> [] | Some off \<Rightarrow> [Num off]))"
  by (simp add: buildSelect_def append_where_fragments [OF assms] order_sql_def Let_def
      split: option.splits)

text \<open>
  C3. buildSelect emits \<open>SELECT * FROM <table>\<close> followed by at most four clauses in
  the order WHERE, ORDER BY, LIMIT, OFFSET. The ORDER BY clause lists
  \<open><column> <direction>\<close> pairs joined by a comma in the order of the descriptor;
  LIMIT and OFFSET are \<open>LIMIT ?\<close> and \<open>OFFSET ?\<close>, their values appended to the
  parameters after all WHERE parameters; a clause whose field is absent is omitted,
  and no clause is emitted with an empty body.
\<close>

theorem select_clause_order:
  assumes "options_typed (where_opt opts)"
  shows "buildSelect table opts =
      Inr (''SELECT * FROM '' @ table
             @ (if where_sql (where_opt opts) = [] then []
                else '' WHERE '' @ where_sql (where_opt opts))
             @ (case order opts of None \<Rightarrow> []
                | Some ord \<Rightarrow> if ord = [] then [] else '' ORDER BY '' @ order_sql ord)
             @ (case limit opts of None \<Rightarrow> [] | Some l \<Rightarrow> '' LIMIT ?'')
             @ (case offset opts of None \<Rightarrow> [] | Some off \<Rightarrow> '' OFFSET ?''),
           where_params (where_opt opts)
             @ (case limit opts of None \<Rightarrow> [] | Some l \<Rightarrow> [Num l])
             @ (case offset opts of None \<Rightarrow> [] | Some off \<Rightarrow> [Num off]))
    \<and> (where_opt opts = None \<longrightarrow> where_sql (where_opt opts) = [])
    \<and> (\<forall>ord. ord \<noteq> [] \<longrightarrow> order_sql ord \<noteq> [])
    \<and> buildSelect ''t'' \<lparr>where_opt = None, limit = Some 2, offset = Some 2,
                          order = Some [(''name'', ASC)]\<rparr>
        = Inr (''SELECT * FROM t ORDER BY name ASC LIMIT ? OFFSET ?'', [Num 2, Num 2])"
proof -
  note one = buildSelect_fragments [OF assms, of table]
  have two: "where_opt opts = None \<longrightarrow> where_sql (where_opt opts) = []"
    by (simp add: where_sql_def)
  have three: "\<forall>ord. ord \<noteq> [] \<longrightarrow> order_sql ord \<noteq> []"
  proof (intro allI impI)
    fix ord :: "(string \<times> direction) list"
    assume "ord \<noteq> []"
    then obtain f d rest where "ord = (f, d) # rest" by (cases ord) auto
    then show "order_sql ord \<noteq> []"
      by (simp add: order_sql_def join_nonempty)
  qed
  have four: "buildSelect ''t'' \<lparr>where_opt = None, limit = Some 2, offset = Some 2,
                          order = Some [(''name'', ASC)]\<rparr>
        = Inr (''SELECT * FROM t ORDER BY name ASC LIMIT ? OFFSET ?'', [Num 2, Num 2])"
    by (simp add: buildSelect_def append_where_def)
  from one two three four show ?thesis by blast
qed

theorem select_clause_order_witness:
  "options_typed (Some [(''age'', Num 5), (''deletedAt'', Null)])
   \<and> buildSelect ''t'' \<lparr>where_opt = Some [(''age'', Num 5), (''deletedAt'', Null)],
                        limit = Some 2, offset = None,
                        order = Some [(''name'', ASC), (''id'', DESC)]\<rparr>
       = Inr (''SELECT * FROM t WHERE age = ? AND deletedAt IS NULL ORDER BY name ASC, id DESC LIMIT ?'',
              [Num 5, Num 2])"
proof -
  have h: "options_typed (where_opt \<lparr>where_opt = Some [(''age'', Num 5), (''deletedAt'', Null)],
                        limit = Some 2, offset = None,
                        order = Some [(''name'', ASC), (''id'', DESC)]\<rparr>)"
    by (simp add: options_typed_def where_typed_def value_typed_def)
  show ?thesis
    using h select_clause_order [OF h, of "''t''"]
    by (simp add: where_sql_def where_params_def entry_fragment_def order_sql_def)
qed

text \<open>
  C4. buildUpdate fails with the error \<open>No data to update\<close> if and only if the partial
  record has no key. For a record with at least one key it returns
  \<open>UPDATE <table> SET k1 = ?, k2 = ? ...\<close>, followed by the WHERE clause if there is
  one, and the parameters are the SET values followed by the WHERE values.
\<close>

theorem update_empty_record:
  "(buildUpdate table data wh = Inl (Error ''No data to update'')) = (data = [])
   \<and> (data \<noteq> [] \<and> options_typed wh \<longrightarrow>
        buildUpdate table data wh =
          Inr (''UPDATE '' @ table @ '' SET '' @ join '', '' (map (\<lambda>k. k @ '' = ?'') (map fst data))
                 @ (if where_sql wh = [] then [] else '' WHERE '' @ where_sql wh),
               map snd data @ where_params wh))"
proof -
  have "append_where wh sql ps \<noteq> Inl (Error ''No data to update'')" for sql ps
  proof (cases wh)
    case None
    then show ?thesis by (simp add: append_where_def)
  next
    case (Some w)
    have loop: "where_loop w cs qs \<noteq> Inl (Error ''No data to update'')" for cs qs
    proof (induction w arbitrary: cs qs)
      case Nil
      then show ?case by simp
    next
      case (Cons e w)
      obtain k v where e: "e = (k, v)" by (cases e)
      have "buildOperatorCondition k operator qs \<noteq> Inl (Error ''No data to update'')" for operator
        by (simp add: buildOperatorCondition_def Let_def split: jsval.splits)
      then show ?case
        using Cons.IH by (auto simp: e split: jsval.splits sum.splits)
    qed
    then show ?thesis
      using Some by (auto simp: append_where_def buildWhereClause_def split: sum.splits)
  qed
  then have one: "(buildUpdate table data wh = Inl (Error ''No data to update'')) = (data = [])"
    by (simp add: buildUpdate_def Let_def)
  have two: "data \<noteq> [] \<and> options_typed wh \<longrightarrow>
        buildUpdate table data wh =
          Inr (''UPDATE '' @ table @ '' SET '' @ join '', '' (map (\<lambda>k. k @ '' = ?'') (map fst data))
                 @ (if where_sql wh = [] then [] else '' WHERE '' @ where_sql wh),
               map snd data @ where_params wh)"
    by (simp add: buildUpdate_def Let_def append_where_fragments)
  from one two show ?thesis by blast
qed

theorem update_empty_record_witness:
  "buildUpdate ''users'' [] (Some [(''id'', Num 1)]) = Inl (Error ''No data to update'')
   \<and> buildUpdate ''users'' [(''age'', Num 31), (''name'', Null)] (Some [(''id'', Num 1)])
       = Inr (''UPDATE users SET age = ?, name = ? WHERE id = ?'', [Num 31, Null, Num 1])"
proof -
  have h: "options_typed (Some [(''id'', Num 1)])"
    by (simp add: options_typed_def where_typed_def value_typed_def)
  show ?thesis
    using h update_empty_record [of "''users''" "[]" "Some [(''id'', Num 1)]"]
      update_empty_record [of "''users''" "[(''age'', Num 31), (''name'', Null)]" "Some [(''id'', Num 1)]"]
    by (simp add: where_sql_def where_params_def entry_fragment_def)
qed

subsection \<open>Placeholders and parameters\<close>

lemma count_q_where_sql:
  assumes "case wh of None \<Rightarrow> True | Some w \<Rightarrow> keys_no_q w"
  shows "count_q (where_sql wh) = length (where_params wh)"
proof (cases wh)
  case None
  then show ?thesis by (simp add: where_sql_def where_params_def)
next
  case (Some w)
  with assms have "list_all (\<lambda>e. count_q (fst e) = 0) w"
    by (simp add: keys_no_q_def no_q_def)
  then show ?thesis
    using Some count_q_where_fragments [of w] by (simp add: where_sql_def where_params_def)
qed

lemma count_q_order_sql:
  assumes "keys_no_q ord"
  shows "count_q (order_sql ord) = 0"
proof -
  have "count_q '', '' = 0" by simp
  then have "count_q (order_sql ord)
      = sum_list (map count_q (map (\<lambda>(field, dir). field @ '' '' @ direction_str dir) ord))"
    unfolding order_sql_def by (rule count_q_join)
  also have "\<dots> = 0"
  proof -
    have "count_q (direction_str d) = 0" for d by (cases d) simp_all
    then show ?thesis
      using assms by (induction ord) (auto simp: keys_no_q_def no_q_def)
  qed
  finally show ?thesis .
qed

lemma count_q_columns:
  assumes "keys_no_q data"
  shows "count_q (join '', '' (map fst data)) = 0"
proof -
  have "count_q '', '' = 0" by simp
  then have "count_q (join '', '' (map fst data)) = sum_list (map count_q (map fst data))"
    by (rule count_q_join)
  also have "\<dots> = 0"
    using assms by (induction data) (auto simp: keys_no_q_def no_q_def)
  finally show ?thesis .
qed

lemma count_q_set_parts:
  assumes "keys_no_q data"
  shows "count_q (join '', '' (map (\<lambda>key. key @ '' = ?'') (map fst data))) = length data"
proof -
  have "count_q '', '' = 0" by simp
  then have "count_q (join '', '' (map (\<lambda>key. key @ '' = ?'') (map fst data)))
      = sum_list (map count_q (map (\<lambda>key. key @ '' = ?'') (map fst data)))"
    by (rule count_q_join)
  also have "\<dots> = length data"
    using assms by (induction data) (auto simp: keys_no_q_def no_q_def)
  finally show ?thesis .
qed

text \<open>
  C9. When the table name and the column names (the keys of the where object and of
  the record, and the fields of the order list) contain no \<open>?\<close>, each of
  buildSelect, buildInsert, buildDelete and buildUpdate (on a record with at least one
  key) returns a statement whose number of \<open>?\<close> characters is the length of its
  parameter list: a \<open>null\<close> where-value gives \<open>IS NULL\<close> and no parameter, an
  operator object one placeholder per parameter, an in-list one per element.
\<close>

theorem placeholders_match_parameters:
  assumes "names_no_q table opts" and "keys_no_q data" and "options_typed (where_opt opts)"
  shows "(\<exists>sql ps. buildSelect table opts = Inr (sql, ps) \<and> count_q sql = length ps)
       \<and> (\<exists>sql ps. buildInsert table data = (sql, ps) \<and> count_q sql = length ps)
       \<and> (\<exists>sql ps. buildDelete table (where_opt opts) = Inr (sql, ps) \<and> count_q sql = length ps)
       \<and> (data \<noteq> [] \<longrightarrow>
            (\<exists>sql ps. buildUpdate table data (where_opt opts) = Inr (sql, ps)
                       \<and> count_q sql = length ps))"
proof -
  from assms(1) have t: "count_q table = 0"
    and w: "case where_opt opts of None \<Rightarrow> True | Some wh \<Rightarrow> keys_no_q wh"
    and ob: "case order opts of None \<Rightarrow> True | Some ord \<Rightarrow> keys_no_q ord"
    by (simp_all add: names_no_q_def no_q_def)
  note cw = count_q_where_sql [OF w]
  have co: "count_q (case order opts of None \<Rightarrow> []
                | Some ord \<Rightarrow> if ord = [] then [] else '' ORDER BY '' @ order_sql ord) = 0"
    using ob by (auto simp: count_q_order_sql split: option.splits)
  have cwp: "count_q (if where_sql (where_opt opts) = [] then []
                      else '' WHERE '' @ where_sql (where_opt opts))
             = length (where_params (where_opt opts))"
  proof (cases "where_sql (where_opt opts) = []")
    case True
    with cw show ?thesis by simp
  next
    case False
    with cw show ?thesis by simp
  qed
  have cl: "count_q (case limit opts of None \<Rightarrow> [] | Some l \<Rightarrow> '' LIMIT ?'')
            = length (case limit opts of None \<Rightarrow> [] | Some l \<Rightarrow> [Num l])"
    by (simp split: option.splits)
  have coff: "count_q (case offset opts of None \<Rightarrow> [] | Some off \<Rightarrow> '' OFFSET ?'')
            = length (case offset opts of None \<Rightarrow> [] | Some off \<Rightarrow> [Num off])"
    by (simp split: option.splits)
  have sel: "\<exists>sql ps. buildSelect table opts = Inr (sql, ps) \<and> count_q sql = length ps"
    unfolding buildSelect_fragments [OF assms(3)]
    by (simp add: t cwp co cl coff split del: if_split)
  have ins: "\<exists>sql ps. buildInsert table data = (sql, ps) \<and> count_q sql = length ps"
    using t count_q_columns [OF assms(2)] count_q_placeholders [of "length data"]
    by (simp add: buildInsert_def Let_def map_const_replicate)
  have del: "\<exists>sql ps. buildDelete table (where_opt opts) = Inr (sql, ps) \<and> count_q sql = length ps"
    unfolding buildDelete_def append_where_fragments [OF assms(3)]
    by (simp add: t cwp split del: if_split)
  have sp: "count_q (join '', '' (map ((\<lambda>key. key @ '' = ?'') \<circ> fst) data)) = length data"
    using count_q_set_parts [OF assms(2)] by simp
  have upd: "data \<noteq> [] \<longrightarrow>
            (\<exists>sql ps. buildUpdate table data (where_opt opts) = Inr (sql, ps)
                       \<and> count_q sql = length ps)"
    by (simp add: buildUpdate_def Let_def append_where_fragments [OF assms(3)]
        t cwp sp split del: if_split)
  from sel ins del upd show ?thesis by blast
qed

theorem placeholders_match_parameters_witness:
  "names_no_q ''t'' \<lparr>where_opt = Some [(''a'', Null), (''b'', Obj [(''$in'', Arr [Num 1, Num 2, Num 3]), (''$gt'', Num 0)]), (''c'', Str ''x?'')],
                     limit = Some 5, offset = None, order = Some [(''a'', DESC)]\<rparr>
   \<and> keys_no_q [(''x'', Num 1), (''y'', Null)]
   \<and> buildSelect ''t'' \<lparr>where_opt = Some [(''a'', Null), (''b'', Obj [(''$in'', Arr [Num 1, Num 2, Num 3]), (''$gt'', Num 0)]), (''c'', Str ''x?'')],
                     limit = Some 5, offset = None, order = Some [(''a'', DESC)]\<rparr>
      = Inr (''SELECT * FROM t WHERE a IS NULL AND b > ? AND b IN (?, ?, ?) AND c = ? ORDER BY a DESC LIMIT ?'',
             [Num 0, Num 1, Num 2, Num 3, Str ''x?'', Num 5])
   \<and> count_q ''SELECT * FROM t WHERE a IS NULL AND b > ? AND b IN (?, ?, ?) AND c = ? ORDER BY a DESC LIMIT ?'' = 6
   \<and> (\<exists>sql ps. buildUpdate ''t'' [(''x'', Num 1), (''y'', Null)]
          (Some [(''a'', Null), (''b'', Obj [(''$in'', Arr [Num 1, Num 2, Num 3]), (''$gt'', Num 0)]), (''c'', Str ''x?'')])
          = Inr (sql, ps) \<and> count_q sql = length ps)"
proof -
  let ?wh = "[(''a'', Null), (''b'', Obj [(''$in'', Arr [Num 1, Num 2, Num 3]), (''$gt'', Num 0)]), (''c'', Str ''x?'')]"
  let ?opts = "\<lparr>where_opt = Some ?wh, limit = Some 5, offset = None, order = Some [(''a'', DESC)]\<rparr>"
  have h1: "names_no_q ''t'' ?opts"
    by (simp add: names_no_q_def keys_no_q_def no_q_def)
  have h2: "keys_no_q [(''x'', Num 1), (''y'', Null)]"
    by (simp add: keys_no_q_def no_q_def)
  have h3: "options_typed (where_opt ?opts)"
    by (simp add: options_typed_def where_typed_def value_typed_def in_typed_def get_def)
  have sel: "buildSelect ''t'' ?opts
      = Inr (''SELECT * FROM t WHERE a IS NULL AND b > ? AND b IN (?, ?, ?) AND c = ? ORDER BY a DESC LIMIT ?'',
             [Num 0, Num 1, Num 2, Num 3, Str ''x?'', Num 5])"
    by (simp add: buildSelect_def append_where_def buildWhereClause_def
        buildOperatorCondition_def push_operator_def get_def)
  show ?thesis
    using h1 h2 sel placeholders_match_parameters [OF h1 h2 h3]
    by simp
qed

subsection \<open>Empty in-list\<close>

text \<open>
  C10. A where-value \<open>{ $in: [] }\<close> is classified as an operator object and yields,
  without an error, the fragment \<open><col> IN ()\<close> with no parameter; on table \<open>t\<close> with
  where \<open>{ id: { $in: [] } }\<close> buildSelect returns \<open>SELECT * FROM t WHERE id IN ()\<close>
  and an empty parameter list.
\<close>

theorem empty_in_list:
  "isOperator (Obj [(''$in'', Arr [])])
   \<and> buildOperatorCondition col [(''$in'', Arr [])] ps = Inr (col @ '' IN ()'', ps)
   \<and> buildWhereClause [(col, Obj [(''$in'', Arr [])])] ps = Inr (col @ '' IN ()'', ps)
   \<and> buildSelect ''t'' (no_options\<lparr>where_opt := Some [(''id'', Obj [(''$in'', Arr [])])]\<rparr>)
       = Inr (''SELECT * FROM t WHERE id IN ()'', [])"
  by (simp add: get_def buildOperatorCondition_def push_operator_def buildWhereClause_def
      buildSelect_def append_where_def no_options_def)

section \<open>Properties of buildCreateTable\<close>

lemma replace_quotes_Cons:
  "replace_quotes (c # s) = (if c = quote then [quote, quote] else [c]) @ replace_quotes s"
  by (simp add: replace_quotes_def)

lemma sql_string_body_plain:
  "c \<noteq> quote \<Longrightarrow> sql_string_body (c # cs) = map_option ((#) c) (sql_string_body cs)"
  by (cases cs) simp_all

lemma sql_string_body_replace_quotes: "sql_string_body (replace_quotes s) = Some s"
proof (induction s)
  case Nil
  then show ?case by (simp add: replace_quotes_def)
next
  case (Cons c s)
  then show ?case
    by (cases "c = quote") (simp_all add: replace_quotes_Cons sql_string_body_plain)
qed

lemma digit_value_nth: "d < 10 \<Longrightarrow> digit_value (''0123456789'' ! d) = d"
proof -
  assume "d < 10"
  then have "d \<in> {0, 1, 2, 3, 4, 5, 6, 7, 8, 9}" by auto
  then show ?thesis by (auto simp: digit_value_def)
qed

lemma decimal_value_digits: "decimal_value (digits n) = n"
proof (induction n rule: digits.induct)
  case (1 n)
  show ?case
  proof (cases "n < 10")
    case True
    then show ?thesis
      by (subst digits.simps) (simp add: decimal_value_def digit_value_nth)
  next
    case False
    have "decimal_value (digits n) = 10 * decimal_value (digits (n div 10)) + digit_value (''0123456789'' ! (n mod 10))"
      using False by (subst digits.simps) (simp add: decimal_value_def)
    also have "\<dots> = 10 * (n div 10) + n mod 10"
      using "1.IH" [OF False] by (simp add: digit_value_nth)
    finally show ?thesis by simp
  qed
qed

lemma columnDef_suffixes:
  "columnDef num_str col
     = name col @ '' '' @ type col @ concat (column_suffixes num_str col)"
  by (simp add: columnDef_def column_suffixes_def Let_def)

lemma safe_integer_of_int: "safe_integer (of_int i) \<longleftrightarrow> \<bar>i\<bar> \<le> 2 ^ 53 - 1"
proof -
  have "\<bar>real_of_int i\<bar> \<le> 2 ^ 53 - 1 \<longleftrightarrow> real_of_int \<bar>i\<bar> \<le> real_of_int (2 ^ 53 - 1)"
    by simp
  also have "\<dots> \<longleftrightarrow> \<bar>i\<bar> \<le> 2 ^ 53 - 1"
    by (rule of_int_le_iff)
  finally show ?thesis by (simp add: safe_integer_def)
qed

lemma Number_toString_of_int:
  "\<bar>i\<bar> \<le> 2 ^ 53 - 1 \<Longrightarrow>
   Number_toString num_str (of_int i)
     = (if i < 0 then ''-'' @ digits (nat (- i)) else digits (nat i))"
proof -
  assume "\<bar>i\<bar> \<le> 2 ^ 53 - 1"
  then have safe: "safe_integer (of_int i)" by (simp only: safe_integer_of_int)
  have "\<lfloor>- real_of_int i\<rfloor> = - i"
    by (simp flip: of_int_minus)
  then show ?thesis
    unfolding Number_toString_def using safe by (simp del: digits.simps)
qed

text \<open>
  C6. buildCreateTable returns \<open>CREATE TABLE IF NOT EXISTS <table> (...)\<close> where each
  column definition is \<open><name> <type>\<close> followed, in this order, by
  \<open> PRIMARY KEY\<close> (with \<open> AUTOINCREMENT\<close> when autoIncrement) when primaryKey is
  true, \<open> NOT NULL\<close> exactly when nullable is \<open>false\<close>, \<open> UNIQUE\<close> when unique is
  true, and \<open> DEFAULT <literal>\<close> when defaultValue is set. A string default is
  written in single quotes with each quote inside it doubled (so that reading the
  literal back gives the string), \<open>null\<close> is the keyword \<open>NULL\<close>, a boolean is \<open>true\<close>
  or \<open>false\<close>, and a number is the text that \<open>String\<close> gives for it, unquoted: the
  decimal numeral for an integer of magnitude below \<open>2^53\<close>, and for every other
  number what the built-in prints.
\<close>

theorem create_table_definition:
  "buildCreateTable num_str table cols =
     ''CREATE TABLE IF NOT EXISTS '' @ table @ '' (''
       @ join '', ''
           (map (\<lambda>col. name col @ '' '' @ type col @ concat (column_suffixes num_str col)) cols)
       @ '')''
   \<and> formatValue num_str (Str s) = [quote] @ replace_quotes s @ [quote]
   \<and> sql_string_body (replace_quotes s) = Some s
   \<and> formatValue num_str Null = ''NULL''
   \<and> formatValue num_str (Bool b) = (if b then ''true'' else ''false'')
   \<and> formatValue num_str (Num x) = Number_toString num_str x
   \<and> (\<bar>i\<bar> \<le> 2 ^ 53 - 1 \<longrightarrow>
        formatValue num_str (Num (of_int i))
          = (if i < 0 then ''-'' @ digits (nat (- i)) else digits (nat i)))
   \<and> (\<not> safe_integer x \<longrightarrow> formatValue num_str (Num x) = num_str x)
   \<and> decimal_value (digits n) = n
   \<and> buildCreateTable num_str ''users''
        [\<lparr>name = ''id'', type = ''INTEGER'', primaryKey = Some True, autoIncrement = Some True,
          nullable = Some False, unique = None, defaultValue = Undefined\<rparr>,
         \<lparr>name = ''email'', type = ''TEXT'', primaryKey = None, autoIncrement = None,
          nullable = Some False, unique = Some True, defaultValue = Undefined\<rparr>,
         \<lparr>name = ''age'', type = ''INTEGER'', primaryKey = None, autoIncrement = Some True,
          nullable = Some True, unique = Some False, defaultValue = Null\<rparr>,
         \<lparr>name = ''isActive'', type = ''INTEGER'', primaryKey = None, autoIncrement = None,
          nullable = None, unique = None, defaultValue = Num 1\<rparr>,
         \<lparr>name = ''price'', type = ''REAL'', primaryKey = None, autoIncrement = None,
          nullable = None, unique = None, defaultValue = Num (1 / 2)\<rparr>,
         \<lparr>name = ''note'', type = ''TEXT'', primaryKey = None, autoIncrement = None,
          nullable = None, unique = None, defaultValue = Str (''it'' @ [quote] @ ''s'')\<rparr>]
      = ''CREATE TABLE IF NOT EXISTS users (id INTEGER PRIMARY KEY AUTOINCREMENT NOT NULL, ''
        @ ''email TEXT NOT NULL UNIQUE, age INTEGER DEFAULT NULL, isActive INTEGER DEFAULT 1, ''
        @ ''price REAL DEFAULT '' @ num_str (1 / 2) @ '', note TEXT DEFAULT ''
        @ [quote] @ ''it'' @ [quote, quote] @ ''s'' @ [quote] @ '')''"
proof -
  have one: "buildCreateTable num_str table cols =
     ''CREATE TABLE IF NOT EXISTS '' @ table @ '' (''
       @ join '', ''
           (map (\<lambda>col. name col @ '' '' @ type col @ concat (column_suffixes num_str col)) cols)
       @ '')''"
  proof -
    have m: "map (columnDef num_str) cols
        = map (\<lambda>col. name col @ '' '' @ type col @ concat (column_suffixes num_str col)) cols"
      by (rule map_cong) (simp_all add: columnDef_suffixes)
    show ?thesis unfolding buildCreateTable_def m by (rule refl)
  qed
  have two: "formatValue num_str (Str s) = [quote] @ replace_quotes s @ [quote]"
    "formatValue num_str Null = ''NULL''"
    "formatValue num_str (Bool b) = (if b then ''true'' else ''false'')"
    "formatValue num_str (Num x) = Number_toString num_str x"
    by (simp_all add: formatValue_def)
  have three: "\<bar>i\<bar> \<le> 2 ^ 53 - 1 \<longrightarrow>
        formatValue num_str (Num (of_int i))
          = (if i < 0 then ''-'' @ digits (nat (- i)) else digits (nat i))"
    using Number_toString_of_int [of i num_str] by (simp add: formatValue_def del: digits.simps)
  have other: "\<not> safe_integer x \<longrightarrow> formatValue num_str (Num x) = num_str x"
    by (simp add: formatValue_def Number_toString_def)
  have si: "safe_integer 1" "\<not> safe_integer (1 / 2)"
    by (simp_all add: safe_integer_def)
  have four: "buildCreateTable num_str ''users''
        [\<lparr>name = ''id'', type = ''INTEGER'', primaryKey = Some True, autoIncrement = Some True,
          nullable = Some False, unique = None, defaultValue = Undefined\<rparr>,
         \<lparr>name = ''email'', type = ''TEXT'', primaryKey = None, autoIncrement = None,
          nullable = Some False, unique = Some True, defaultValue = Undefined\<rparr>,
         \<lparr>name = ''age'', type = ''INTEGER'', primaryKey = None, autoIncrement = Some True,
          nullable = Some True, unique = Some False, defaultValue = Null\<rparr>,
         \<lparr>name = ''isActive'', type = ''INTEGER'', primaryKey = None, autoIncrement = None,
          nullable = None, unique = None, defaultValue = Num 1\<rparr>,
         \<lparr>name = ''price'', type = ''REAL'', primaryKey = None, autoIncrement = None,
          nullable = None, unique = None, defaultValue = Num (1 / 2)\<rparr>,
         \<lparr>name = ''note'', type = ''TEXT'', primaryKey = None, autoIncrement = None,
          nullable = None, unique = None, defaultValue = Str (''it'' @ [quote] @ ''s'')\<rparr>]
      = ''CREATE TABLE IF NOT EXISTS users (id INTEGER PRIMARY KEY AUTOINCREMENT NOT NULL, ''
        @ ''email TEXT NOT NULL UNIQUE, age INTEGER DEFAULT NULL, isActive INTEGER DEFAULT 1, ''
        @ ''price REAL DEFAULT '' @ num_str (1 / 2) @ '', note TEXT DEFAULT ''
        @ [quote] @ ''it'' @ [quote, quote] @ ''s'' @ [quote] @ '')''"
    by (simp add: buildCreateTable_def columnDef_def formatValue_def replace_quotes_def quote_def
        Number_toString_def si)
  from one two three other four sql_string_body_replace_quotes [of s] decimal_value_digits [of n]
  show ?thesis by blast
qed

theorem create_table_definition_witness:
  "\<bar>- 42 :: int\<bar> \<le> 2 ^ 53 - 1
   \<and> formatValue num_str_sample (Num (- 42)) = ''-42''
   \<and> formatValue num_str_sample (Num 1205) = ''1205''
   \<and> \<not> safe_integer (10 ^ 21)
   \<and> formatValue num_str_sample (Num (10 ^ 21)) = ''1e+21''
   \<and> \<not> safe_integer (2 ^ 63)
   \<and> formatValue num_str_sample (Num (2 ^ 63)) = ''9223372036854776000''"
proof -
  have h1: "\<bar>- 42 :: int\<bar> \<le> 2 ^ 53 - 1" "\<bar>1205 :: int\<bar> \<le> 2 ^ 53 - 1"
    by simp_all
  have h2: "\<not> safe_integer (10 ^ 21)" "\<not> safe_integer (2 ^ 63)"
    by (simp_all add: safe_integer_def)
  note inst1 = create_table_definition
    [of num_str_sample "''t''" "[]" "''s''" True "10 ^ 21" "- 42" 0]
  note inst2 = create_table_definition
    [of num_str_sample "''t''" "[]" "''s''" True "2 ^ 63" 1205 0]
  from inst1 h1(1) have "formatValue num_str_sample (Num (real_of_int (- 42)))
      = (if (- 42 :: int) < 0 then ''-'' @ digits (nat (- (- 42))) else digits (nat (- 42)))"
    by blast
  then have a: "formatValue num_str_sample (Num (- 42)) = ''-42''"
    by simp
  from inst2 h1(2) have "formatValue num_str_sample (Num (real_of_int 1205))
      = (if (1205 :: int) < 0 then ''-'' @ digits (nat (- 1205)) else digits (nat 1205))"
    by blast
  then have b: "formatValue num_str_sample (Num 1205) = ''1205''"
    by simp
  from inst1 h2(1) have "formatValue num_str_sample (Num (10 ^ 21)) = num_str_sample (10 ^ 21)"
    by blast
  then have c: "formatValue num_str_sample (Num (10 ^ 21)) = ''1e+21''"
    by (simp add: num_str_sample_def)
  from inst2 h2(2) have "formatValue num_str_sample (Num (2 ^ 63)) = num_str_sample (2 ^ 63)"
    by blast
  then have d: "formatValue num_str_sample (Num (2 ^ 63)) = ''9223372036854776000''"
    by (simp add: num_str_sample_def)
  from h1(1) h2 a b c d show ?thesis by blast
qed

section \<open>Properties of the metadata registry\<close>

lemma map_of_AList_update: "map_of (AList.update k v al) k = Some v"
  by (simp add: AList.update_conv')

lemma existingColumn_registerColumn:
  "existingColumn cname propName (registerColumn cname propName metadata tables)
     = Some metadata"
  by (simp add: existingColumn_def getTableMetadata_def registerColumn_def Let_def
      map_of_AList_update split: option.splits)

text \<open>
  C8. registerTable is an idempotent upsert: with no descriptor for the model key it
  creates one with the given table name and no column; with one, it changes only the
  table name and leaves the registered columns as they are; other models are not
  touched. registerColumn for a model with no descriptor creates one whose table name
  is the model key in lower case.
\<close>

theorem register_upsert:
  "(tables cname = None \<longrightarrow>
      registerTable cname tName tables cname = Some \<lparr>tableName = tName, columns = []\<rparr>)
   \<and> (\<forall>metadata. tables cname = Some metadata \<longrightarrow>
        registerTable cname tName tables cname = Some (metadata\<lparr>tableName := tName\<rparr>)
        \<and> columns (metadata\<lparr>tableName := tName\<rparr>) = columns metadata)
   \<and> (\<forall>other. other \<noteq> cname \<longrightarrow> registerTable cname tName tables other = tables other)
   \<and> registerTable cname tName (registerTable cname tName tables)
       = registerTable cname tName tables
   \<and> (tables cname = None \<longrightarrow>
        registerColumn cname propertyKey col tables cname
          = Some \<lparr>tableName = toLowerCase cname, columns = [(propertyKey, col)]\<rparr>)"
proof -
  have idem: "registerTable cname tName (registerTable cname tName tables)
       = registerTable cname tName tables"
    by (rule ext) (simp add: registerTable_def split: option.splits)
  show ?thesis
    using idem by (simp add: registerTable_def registerColumn_def Let_def split: option.splits)
qed

theorem register_upsert_witness:
  "registerTable ''User'' ''users'' Map.empty ''User'' = Some \<lparr>tableName = ''users'', columns = []\<rparr>
   \<and> registerColumn ''UserProfile'' ''id''
        \<lparr>name = ''id'', type = ''INTEGER'', primaryKey = Some True, autoIncrement = Some True,
         nullable = Some False, unique = None, defaultValue = Undefined\<rparr> Map.empty ''UserProfile''
       = Some \<lparr>tableName = ''userprofile'',
               columns = [(''id'', \<lparr>name = ''id'', type = ''INTEGER'', primaryKey = Some True,
                                    autoIncrement = Some True, nullable = Some False,
                                    unique = None, defaultValue = Undefined\<rparr>)]\<rparr>
   \<and> registerTable ''UserProfile'' ''profiles''
        (registerColumn ''UserProfile'' ''id''
           \<lparr>name = ''id'', type = ''INTEGER'', primaryKey = Some True, autoIncrement = Some True,
            nullable = Some False, unique = None, defaultValue = Undefined\<rparr> Map.empty)
        ''UserProfile''
       = Some \<lparr>tableName = ''profiles'',
               columns = [(''id'', \<lparr>name = ''id'', type = ''INTEGER'', primaryKey = Some True,
                                    autoIncrement = Some True, nullable = Some False,
                                    unique = None, defaultValue = Undefined\<rparr>)]\<rparr>"
proof -
  let ?c = "\<lparr>name = ''id'', type = ''INTEGER'', primaryKey = Some True, autoIncrement = Some True,
            nullable = Some False, unique = None, defaultValue = Undefined\<rparr>"
  have reg: "registerColumn ''UserProfile'' ''id'' ?c Map.empty ''UserProfile''
       = Some \<lparr>tableName = ''userprofile'', columns = [(''id'', ?c)]\<rparr>"
    using register_upsert [of Map.empty "''UserProfile''" "''x''" "''id''" ?c]
    by (simp add: toLowerCase_def)
  show ?thesis
    using reg register_upsert [of Map.empty "''User''" "''users''" "''id''" ?c]
      register_upsert [of "registerColumn ''UserProfile'' ''id'' ?c Map.empty"
        "''UserProfile''" "''profiles''" "''id''" ?c]
    by simp
qed

text \<open>
  C1 as stated fails: a Column declaration registered after a PrimaryKey declaration
  for the same property does not set primaryKey, and the stored primaryKey is
  \<open>undefined\<close> afterwards, not \<open>true\<close> as the earlier declaration had it (the
  type changes from INTEGER to TEXT as well).
\<close>

theorem column_registration_counterexample:
  "map_option primaryKey
     (existingColumn ''User'' ''id''
        (Column (OptionsArg \<lparr>type_opt = None, name_opt = Some ''user_id'', nullable_opt = None,
                             unique_opt = None, defaultValue_opt = Undefined\<rparr>) None
           ''User'' ''id'' (PrimaryKey True ''User'' ''id'' Map.empty)))
     \<noteq> map_option primaryKey
         (existingColumn ''User'' ''id'' (PrimaryKey True ''User'' ''id'' Map.empty))
   \<and> existingColumn ''User'' ''id'' (PrimaryKey True ''User'' ''id'' Map.empty)
     = Some \<lparr>name = ''id'', type = ''INTEGER'', primaryKey = Some True, autoIncrement = Some True,
             nullable = Some False, unique = None, defaultValue = Undefined\<rparr>
   \<and> existingColumn ''User'' ''id''
       (Column (OptionsArg \<lparr>type_opt = None, name_opt = Some ''user_id'', nullable_opt = None,
                            unique_opt = None, defaultValue_opt = Undefined\<rparr>) None
          ''User'' ''id'' (PrimaryKey True ''User'' ''id'' Map.empty))
     = Some \<lparr>name = ''user_id'', type = ''TEXT'', primaryKey = None, autoIncrement = None,
             nullable = None, unique = None, defaultValue = Undefined\<rparr>"
  by (simp add: existingColumn_registerColumn PrimaryKey_def Column_def or_str_def truthy_str_def)

lemma Column_text:
  "Column (TypeArg ''TEXT'') tsType cname propName tables
     = registerColumn cname propName
         \<lparr>name = propName, type = ''TEXT'', primaryKey = None, autoIncrement = None,
          nullable = None, unique = None, defaultValue = Undefined\<rparr> tables"
  by (cases tsType) (simp_all add: Column_def or_str_def truthy_str_def)

lemma inferSQLiteType_nonempty: "inferSQLiteType typeName \<noteq> []"
  by (simp add: inferSQLiteType_def Let_def)

lemma Column_fresh:
  "Column arg tsType cname propName tables
     = registerColumn cname propName
         \<lparr>name = or_str (name_opt (column_options arg)) propName,
          type = or_str (type_opt (column_options arg))
                   (case tsType of None \<Rightarrow> ''TEXT'' | Some tn \<Rightarrow> inferSQLiteType tn),
          primaryKey = None, autoIncrement = None,
          nullable = nullable_opt (column_options arg),
          unique = unique_opt (column_options arg),
          defaultValue = defaultValue_opt (column_options arg)\<rparr> tables"
proof -
  have opts: "(case arg of
                 TypeArg t \<Rightarrow> \<lparr>type_opt = Some t, name_opt = None, nullable_opt = None,
                               unique_opt = None, defaultValue_opt = Undefined\<rparr>
               | OptionsArg opts \<Rightarrow> opts
               | NoArg \<Rightarrow> \<lparr>type_opt = None, name_opt = None, nullable_opt = None,
                           unique_opt = None, defaultValue_opt = Undefined\<rparr>)
      = column_options arg"
    by (cases arg) (simp_all add: column_options_def)
  show ?thesis
  proof (cases tsType)
    case None
    then show ?thesis
      unfolding Column_def opts Let_def by simp
  next
    case (Some tn)
    show ?thesis
    proof (cases "truthy_str (type_opt (column_options arg))")
      case True
      then have "or_str (type_opt (column_options arg)) (inferSQLiteType tn)
          = or_str (type_opt (column_options arg)) ''TEXT''"
        by (auto simp: or_str_def truthy_str_def split: option.splits)
      with True Some show ?thesis
        unfolding Column_def opts Let_def by simp
    next
      case False
      then have "or_str (type_opt (column_options arg)) (inferSQLiteType tn) = inferSQLiteType tn"
        by (auto simp: or_str_def truthy_str_def split: option.splits)
      moreover have "or_str (Some (inferSQLiteType tn)) ''TEXT'' = inferSQLiteType tn"
        using inferSQLiteType_nonempty [of tn] by (simp add: or_str_def)
      ultimately show ?thesis
        using False Some unfolding Column_def opts Let_def by simp
    qed
  qed
qed

text \<open>
  C1, amended. registerColumn replaces the stored descriptor of the property. The
  merge is made by the declarations NotNull, Unique and Default: when one of them
  follows an earlier registration for the same property, it stores the earlier
  descriptor with only its own field (nullable, unique, defaultValue) changed. In
  particular NotNull after a TEXT column declaration leaves the type TEXT and sets
  nullable to \<open>false\<close>. A later Column or PrimaryKey declaration stores a fresh
  descriptor, made of its own arguments only, whatever was registered before: a
  Column declaration leaves primaryKey and autoIncrement unset and takes nullable,
  unique and defaultValue from its options.
\<close>

theorem column_registration_merge:
  "existingColumn cname propName (registerColumn cname propName metadata tables)
     = Some metadata
   \<and> (\<forall>c. existingColumn cname propName tables = Some c \<longrightarrow>
          existingColumn cname propName (NotNull cname propName tables)
            = Some (c\<lparr>nullable := Some False\<rparr>)
        \<and> existingColumn cname propName (Unique cname propName tables)
            = Some (c\<lparr>unique := Some True\<rparr>)
        \<and> existingColumn cname propName (Default v cname propName tables)
            = Some (c\<lparr>defaultValue := v\<rparr>))
   \<and> existingColumn cname propName
        (NotNull cname propName (Column (TypeArg ''TEXT'') tsType cname propName tables))
       = Some \<lparr>name = propName, type = ''TEXT'', primaryKey = None, autoIncrement = None,
               nullable = Some False, unique = None, defaultValue = Undefined\<rparr>
   \<and> existingColumn cname propName (PrimaryKey autoInc cname propName tables)
       = Some \<lparr>name = propName, type = ''INTEGER'', primaryKey = Some True,
               autoIncrement = Some autoInc, nullable = Some False, unique = None,
               defaultValue = Undefined\<rparr>
   \<and> existingColumn cname propName (Column arg tsType cname propName tables)
       = Some \<lparr>name = or_str (name_opt (column_options arg)) propName,
               type = or_str (type_opt (column_options arg))
                        (case tsType of None \<Rightarrow> ''TEXT'' | Some tn \<Rightarrow> inferSQLiteType tn),
               primaryKey = None, autoIncrement = None,
               nullable = nullable_opt (column_options arg),
               unique = unique_opt (column_options arg),
               defaultValue = defaultValue_opt (column_options arg)\<rparr>"
proof -
  have fresh: "existingColumn cname propName (Column arg tsType cname propName tables)
       = Some \<lparr>name = or_str (name_opt (column_options arg)) propName,
               type = or_str (type_opt (column_options arg))
                        (case tsType of None \<Rightarrow> ''TEXT'' | Some tn \<Rightarrow> inferSQLiteType tn),
               primaryKey = None, autoIncrement = None,
               nullable = nullable_opt (column_options arg),
               unique = unique_opt (column_options arg),
               defaultValue = defaultValue_opt (column_options arg)\<rparr>"
    by (simp only: Column_fresh existingColumn_registerColumn)
  have pk: "existingColumn cname propName (PrimaryKey autoInc cname propName tables)
       = Some \<lparr>name = propName, type = ''INTEGER'', primaryKey = Some True,
               autoIncrement = Some autoInc, nullable = Some False, unique = None,
               defaultValue = Undefined\<rparr>"
    by (simp add: PrimaryKey_def existingColumn_registerColumn)
  have modifiers: "existingColumn cname propName (NotNull cname propName tables)
            = Some (c\<lparr>nullable := Some False\<rparr>)
        \<and> existingColumn cname propName (Unique cname propName tables)
            = Some (c\<lparr>unique := Some True\<rparr>)
        \<and> existingColumn cname propName (Default v cname propName tables)
            = Some (c\<lparr>defaultValue := v\<rparr>)"
    if "existingColumn cname propName tables = Some c" for c
    using that
    by (simp add: existingColumn_registerColumn NotNull_def Unique_def Default_def
        existing_or_text_def)
  have "existingColumn cname propName (Column (TypeArg ''TEXT'') tsType cname propName tables)
      = Some \<lparr>name = propName, type = ''TEXT'', primaryKey = None, autoIncrement = None,
               nullable = None, unique = None, defaultValue = Undefined\<rparr>"
    by (cases tsType)
       (simp_all add: Column_text existingColumn_registerColumn)
  then have particular: "existingColumn cname propName
        (NotNull cname propName (Column (TypeArg ''TEXT'') tsType cname propName tables))
       = Some \<lparr>name = propName, type = ''TEXT'', primaryKey = None, autoIncrement = None,
               nullable = Some False, unique = None, defaultValue = Undefined\<rparr>"
    by (simp add: existingColumn_registerColumn NotNull_def existing_or_text_def)
  from modifiers particular pk fresh
    existingColumn_registerColumn [of cname propName metadata tables]
  show ?thesis by blast
qed

theorem column_registration_merge_witness:
  "existingColumn ''User'' ''id'' (PrimaryKey True ''User'' ''id'' Map.empty)
     = Some \<lparr>name = ''id'', type = ''INTEGER'', primaryKey = Some True, autoIncrement = Some True,
             nullable = Some False, unique = None, defaultValue = Undefined\<rparr>
   \<and> existingColumn ''User'' ''id'' (Unique ''User'' ''id'' (PrimaryKey True ''User'' ''id'' Map.empty))
     = Some \<lparr>name = ''id'', type = ''INTEGER'', primaryKey = Some True, autoIncrement = Some True,
             nullable = Some False, unique = Some True, defaultValue = Undefined\<rparr>
   \<and> existingColumn ''User'' ''id''
       (Column (OptionsArg \<lparr>type_opt = None, name_opt = Some ''user_id'', nullable_opt = None,
                            unique_opt = Some True, defaultValue_opt = Undefined\<rparr>)
          (Some ''Number'') ''User'' ''id'' (PrimaryKey True ''User'' ''id'' Map.empty))
     = Some \<lparr>name = ''user_id'', type = ''INTEGER'', primaryKey = None, autoIncrement = None,
             nullable = None, unique = Some True, defaultValue = Undefined\<rparr>"
proof -
  have h: "existingColumn ''User'' ''id'' (PrimaryKey True ''User'' ''id'' Map.empty)
     = Some \<lparr>name = ''id'', type = ''INTEGER'', primaryKey = Some True, autoIncrement = Some True,
             nullable = Some False, unique = None, defaultValue = Undefined\<rparr>"
    by (simp add: existingColumn_registerColumn PrimaryKey_def)
  note inst = column_registration_merge [of "''User''" "''id''"
        "\<lparr>name = ''id'', type = ''TEXT'', primaryKey = None, autoIncrement = None,
          nullable = None, unique = None, defaultValue = Undefined\<rparr>"
        "PrimaryKey True ''User'' ''id'' Map.empty" Undefined "Some ''Number''" True
        "OptionsArg \<lparr>type_opt = None, name_opt = Some ''user_id'', nullable_opt = None,
                      unique_opt = Some True, defaultValue_opt = Undefined\<rparr>"]
  from inst h have u: "existingColumn ''User'' ''id''
        (Unique ''User'' ''id'' (PrimaryKey True ''User'' ''id'' Map.empty))
     = Some (\<lparr>name = ''id'', type = ''INTEGER'', primaryKey = Some True,
              autoIncrement = Some True, nullable = Some False, unique = None,
              defaultValue = Undefined\<rparr>\<lparr>unique := Some True\<rparr>)"
    by blast
  from inst have c: "existingColumn ''User'' ''id''
       (Column (OptionsArg \<lparr>type_opt = None, name_opt = Some ''user_id'', nullable_opt = None,
                            unique_opt = Some True, defaultValue_opt = Undefined\<rparr>)
          (Some ''Number'') ''User'' ''id'' (PrimaryKey True ''User'' ''id'' Map.empty))
     = Some \<lparr>name = ''user_id'', type = ''INTEGER'', primaryKey = None, autoIncrement = None,
             nullable = None, unique = Some True, defaultValue = Undefined\<rparr>"
    by (simp add: column_options_def or_str_def inferSQLiteType_def toLowerCase_def)
  from h u c show ?thesis by simp
qed

section \<open>Properties of the model operations\<close>

lemma execute_Inl:
  "execute eng sql ps db = (Inl e, db') \<Longrightarrow> e \<noteq> no_columns_error cls"
  by (auto simp: execute_def no_columns_error_def split: sum.splits if_splits)

lemma sync_cols_eq:
  "map (\<lambda>(nm, col). \<lparr>name = or_str (Some (name col)) nm, type = type col,
                      primaryKey = primaryKey col, autoIncrement = autoIncrement col,
                      nullable = nullable col, unique = unique col,
                      defaultValue = defaultValue col\<rparr>) (columns metadata)
   = sync_columns metadata"
  unfolding sync_columns_def
  by (rule map_cong) (auto simp: or_str_def)

lemma sync_no_columns:
  "\<not> has_columns tables cls \<Longrightarrow> sync eng num_str tables cls force db = (Inl (no_columns_error cls), db)"
  by (auto simp: sync_def has_columns_def Let_def split: option.splits)

lemma sync_step:
  assumes "has_columns tables cls"
  shows "sync eng num_str tables cls force db =
     (if force = Some True then
        (case execute eng (fst (drop_statement tables cls)) [] db of
           (Inl e, db') \<Rightarrow> (Inl e, db')
         | (Inr _, db') \<Rightarrow>
             (case execute eng (fst (create_statement num_str tables cls)) [] db' of
                (Inl e, db'') \<Rightarrow> (Inl e, db'')
              | (Inr _, db'') \<Rightarrow> (Inr (), db'')))
      else
        (case execute eng (fst (create_statement num_str tables cls)) [] db of
           (Inl e, db'') \<Rightarrow> (Inl e, db'')
         | (Inr _, db'') \<Rightarrow> (Inr (), db'')))"
proof -
  from assms obtain metadata where md: "getTableMetadata (className cls) tables = Some metadata"
    "columns metadata \<noteq> []"
    by (auto simp: has_columns_def split: option.splits)
  show ?thesis
    unfolding sync_def Let_def md option.case sync_cols_eq
    using md(2)
    by (simp add: drop_statement_def create_statement_def md(1) split: prod.splits sum.splits)
qed

lemma column_keys_registerColumn:
  "column_keys cname (registerColumn cname p col tables) =
     (if p \<in> set (column_keys cname tables) then column_keys cname tables
      else column_keys cname tables @ [p])"
  by (auto simp: column_keys_def registerColumn_def Let_def update_keys split: option.splits)

text \<open>
  C5. sync fails with the no-columns error exactly when the model has no schema or the
  schema has no column, and then executes nothing. Otherwise, on an initialized
  database: with \<open>force\<close> it executes \<open>DROP TABLE IF EXISTS <table>\<close> and then (the
  engine having accepted the drop) the \<open>CREATE TABLE IF NOT EXISTS\<close> statement;
  without \<open>force\<close> it executes the \<open>CREATE TABLE IF NOT EXISTS\<close> statement only, no
  drop. The statement is built from the schema's columns in the order of the columns
  map, which is the order in which the properties were first registered.
\<close>

theorem sync_statements:
  "(fst (sync eng num_str tables cls force db) = Inl (no_columns_error cls)) = (\<not> has_columns tables cls)
   \<and> (\<not> has_columns tables cls \<longrightarrow> snd (sync eng num_str tables cls force db) = db)
   \<and> (\<not> initialized db \<longrightarrow> snd (sync eng num_str tables cls force db) = db)
   \<and> (has_columns tables cls \<and> initialized db \<and> force = Some True
        \<and> (\<exists>r. eng (executed db) (drop_statement tables cls) = Inr r) \<longrightarrow>
        executed (snd (sync eng num_str tables cls force db))
          = executed db @ [drop_statement tables cls, create_statement num_str tables cls])
   \<and> (has_columns tables cls \<and> initialized db \<and> force \<noteq> Some True \<longrightarrow>
        executed (snd (sync eng num_str tables cls force db))
          = executed db @ [create_statement num_str tables cls])
   \<and> (\<forall>metadata. getTableMetadata (className cls) tables = Some metadata \<longrightarrow>
        create_statement num_str tables cls
          = (''CREATE TABLE IF NOT EXISTS '' @ getTableName tables cls @ '' (''
               @ join '', '' (map (columnDef num_str) (sync_columns metadata)) @ '')'', []))
   \<and> column_keys cname (registerColumn cname p col tables) =
        (if p \<in> set (column_keys cname tables) then column_keys cname tables
         else column_keys cname tables @ [p])"
proof -
  have dropst: "drop_statement tables cls = (fst (drop_statement tables cls), [])"
    and createst: "create_statement num_str tables cls = (fst (create_statement num_str tables cls), [])"
    by (simp_all add: drop_statement_def create_statement_def split: option.splits)
  have one: "(fst (sync eng num_str tables cls force db) = Inl (no_columns_error cls))
      = (\<not> has_columns tables cls)"
  proof (cases "has_columns tables cls")
    case False
    then show ?thesis by (simp add: sync_no_columns)
  next
    case True
    have "fst (sync eng num_str tables cls force db) \<noteq> Inl (no_columns_error cls)"
      unfolding sync_step [OF True]
      by (auto split: prod.splits sum.splits dest: execute_Inl)
    with True show ?thesis by simp
  qed
  have two: "\<not> has_columns tables cls \<longrightarrow> snd (sync eng num_str tables cls force db) = db"
    by (simp add: sync_no_columns)
  have three: "\<not> initialized db \<longrightarrow> snd (sync eng num_str tables cls force db) = db"
  proof (cases "has_columns tables cls")
    case False
    then show ?thesis by (simp add: sync_no_columns)
  next
    case True
    show ?thesis
      unfolding sync_step [OF True]
      by (simp add: execute_def)
  qed
  have four: "has_columns tables cls \<and> initialized db \<and> force = Some True
        \<and> (\<exists>r. eng (executed db) (drop_statement tables cls) = Inr r) \<longrightarrow>
        executed (snd (sync eng num_str tables cls force db))
          = executed db @ [drop_statement tables cls, create_statement num_str tables cls]"
  proof (intro impI, elim conjE exE)
    fix r
    assume hc: "has_columns tables cls" and init: "initialized db" and f: "force = Some True"
      and ok: "eng (executed db) (drop_statement tables cls) = Inr r"
    from ok dropst have ok': "eng (executed db) (fst (drop_statement tables cls), []) = Inr r"
      by simp
    show "executed (snd (sync eng num_str tables cls force db))
          = executed db @ [drop_statement tables cls, create_statement num_str tables cls]"
      unfolding sync_step [OF hc]
      using init f ok' dropst createst
      by (simp add: execute_def split: sum.splits)
  qed
  have five: "has_columns tables cls \<and> initialized db \<and> force \<noteq> Some True \<longrightarrow>
        executed (snd (sync eng num_str tables cls force db))
          = executed db @ [create_statement num_str tables cls]"
  proof (intro impI, elim conjE)
    assume hc: "has_columns tables cls" and init: "initialized db" and f: "force \<noteq> Some True"
    show "executed (snd (sync eng num_str tables cls force db))
          = executed db @ [create_statement num_str tables cls]"
      unfolding sync_step [OF hc]
      using init f createst
      by (simp add: execute_def split: sum.splits)
  qed
  have six: "\<forall>metadata. getTableMetadata (className cls) tables = Some metadata \<longrightarrow>
        create_statement num_str tables cls
          = (''CREATE TABLE IF NOT EXISTS '' @ getTableName tables cls @ '' (''
               @ join '', '' (map (columnDef num_str) (sync_columns metadata)) @ '')'', [])"
    by (simp add: create_statement_def buildCreateTable_def)
  from one two three four five six column_keys_registerColumn [of cname p col tables]
  show ?thesis by blast
qed

lemma user_tables_eq:
  "user_tables ''User'' =
     Some \<lparr>tableName = ''users'',
           columns = [(''id'', \<lparr>name = ''id'', type = ''INTEGER'', primaryKey = Some True,
                                autoIncrement = Some True, nullable = Some False, unique = None,
                                defaultValue = Undefined\<rparr>),
                      (''name'', \<lparr>name = ''name'', type = ''TEXT'', primaryKey = None,
                                  autoIncrement = None, nullable = Some False, unique = None,
                                  defaultValue = Undefined\<rparr>)]\<rparr>"
  by (simp add: user_tables_def registerTable_def NotNull_def Column_def PrimaryKey_def
      registerColumn_def existing_or_text_def existingColumn_def getTableMetadata_def
      or_str_def truthy_str_def toLowerCase_def Let_def)

theorem sync_statements_witness:
  "has_columns user_tables \<lparr>className = ''User'', static_tableName = None\<rparr>
   \<and> \<not> has_columns Map.empty \<lparr>className = ''User'', static_tableName = None\<rparr>
   \<and> sync accepting_engine num_str_sample Map.empty \<lparr>className = ''User'', static_tableName = None\<rparr> (Some True)
        \<lparr>initialized = True, executed = []\<rparr>
       = (Inl (Error ''No columns defined for model User. Use @Column decorators.''),
          \<lparr>initialized = True, executed = []\<rparr>)
   \<and> executed (snd (sync accepting_engine num_str_sample user_tables
                      \<lparr>className = ''User'', static_tableName = None\<rparr> (Some True)
                      \<lparr>initialized = True, executed = []\<rparr>))
       = [(''DROP TABLE IF EXISTS users'', []),
          (''CREATE TABLE IF NOT EXISTS users (id INTEGER PRIMARY KEY AUTOINCREMENT NOT NULL, name TEXT NOT NULL)'', [])]
   \<and> executed (snd (sync accepting_engine num_str_sample user_tables
                      \<lparr>className = ''User'', static_tableName = None\<rparr> None
                      \<lparr>initialized = True, executed = []\<rparr>))
       = [(''CREATE TABLE IF NOT EXISTS users (id INTEGER PRIMARY KEY AUTOINCREMENT NOT NULL, name TEXT NOT NULL)'', [])]"
proof -
  let ?cls = "\<lparr>className = ''User'', static_tableName = None\<rparr>"
  let ?db = "\<lparr>initialized = True, executed = []\<rparr>"
  have h1: "has_columns user_tables ?cls"
    by (simp add: has_columns_def getTableMetadata_def user_tables_eq)
  have h2: "\<not> has_columns Map.empty ?cls"
    by (simp add: has_columns_def getTableMetadata_def)
  have d: "drop_statement user_tables ?cls = (''DROP TABLE IF EXISTS users'', [])"
    by (simp add: drop_statement_def getTableName_def getTableMetadata_def user_tables_eq)
  have c: "create_statement num_str_sample user_tables ?cls =
      (''CREATE TABLE IF NOT EXISTS users (id INTEGER PRIMARY KEY AUTOINCREMENT NOT NULL, name TEXT NOT NULL)'', [])"
    by (simp add: create_statement_def getTableName_def getTableMetadata_def user_tables_eq
        sync_columns_def buildCreateTable_def columnDef_def)
  have e: "\<exists>r. accepting_engine (executed ?db) (drop_statement user_tables ?cls) = Inr r"
    by (simp add: accepting_engine_def)
  have fst_snd: "sync accepting_engine num_str_sample Map.empty ?cls (Some True) ?db
      = (fst (sync accepting_engine num_str_sample Map.empty ?cls (Some True) ?db),
         snd (sync accepting_engine num_str_sample Map.empty ?cls (Some True) ?db))"
    by simp
  show ?thesis
    using h1 h2 d c e
      sync_statements [of accepting_engine num_str_sample Map.empty ?cls "Some True" ?db "''User''" "''id''" "\<lparr>name = ''id'', type = ''TEXT'', primaryKey = None, autoIncrement = None, nullable = None, unique = None, defaultValue = Undefined\<rparr>"]
      sync_statements [of accepting_engine num_str_sample user_tables ?cls "Some True" ?db "''User''" "''id''" "\<lparr>name = ''id'', type = ''TEXT'', primaryKey = None, autoIncrement = None, nullable = None, unique = None, defaultValue = Undefined\<rparr>"]
      sync_statements [of accepting_engine num_str_sample user_tables ?cls None ?db "''User''" "''id''" "\<lparr>name = ''id'', type = ''TEXT'', primaryKey = None, autoIncrement = None, nullable = None, unique = None, defaultValue = Undefined\<rparr>"]
    by (subst fst_snd) (simp add: no_columns_error_def)
qed

lemma findOne_findAll:
  "findOne eng tables cls options db =
     (case findAll eng tables cls (Some (with_limit options 1)) db of
        (Inl e, db') \<Rightarrow> (Inl e, db')
      | (Inr results, db') \<Rightarrow> (Inr (first_or_null results), db'))"
proof -
  have "(case options of Some opts \<Rightarrow> opts | None \<Rightarrow> no_options)\<lparr>limit := Some 1\<rparr>
      = with_limit options 1"
    by (cases options) (simp_all add: with_limit_def no_options_def)
  moreover have "(if length results > 0 then Inr (results ! 0) else Inr Null)
      = (Inr (first_or_null results) :: error + jsval)" for results
    by (cases results) (simp_all add: first_or_null_def)
  ultimately show ?thesis
    by (simp add: findOne_def Let_def split: prod.splits sum.splits)
qed

text \<open>
  C7. For every query descriptor, with or without a limit of the caller's, findOne is
  findAll on the descriptor with its limit replaced by 1, and returns the first
  element of the result, or \<open>null\<close> when the result is empty.
\<close>

theorem findOne_is_findAll_limit_one:
  "findOne eng tables cls options db =
     (case findAll eng tables cls (Some (with_limit options 1)) db of
        (Inl e, db') \<Rightarrow> (Inl e, db')
      | (Inr results, db') \<Rightarrow> (Inr (first_or_null results), db'))
   \<and> findOne eng tables cls (Some (opts\<lparr>limit := l\<rparr>)) db = findOne eng tables cls (Some opts) db
   \<and> first_or_null [] = Null
   \<and> first_or_null (r # rs) = r
   \<and> findOne (\<lambda>history st. Inr \<lparr>rows = [Str ''a'', Str ''b''], insertId = None, rowsAffected = None\<rparr>)
        Map.empty \<lparr>className = ''User'', static_tableName = None\<rparr>
        (Some \<lparr>where_opt = Some [(''id'', Num 7)], limit = Some 10, offset = None, order = None\<rparr>)
        \<lparr>initialized = True, executed = []\<rparr>
       = (Inr (Str ''a''),
          \<lparr>initialized = True, executed = [(''SELECT * FROM user WHERE id = ? LIMIT ?'', [Num 7, Num 1])]\<rparr>)"
proof -
  have two: "findOne eng tables cls (Some (opts\<lparr>limit := l\<rparr>)) db = findOne eng tables cls (Some opts) db"
    by (simp add: findOne_findAll with_limit_def)
  have three: "first_or_null [] = Null" "first_or_null (r # rs) = r"
    by (simp_all add: first_or_null_def)
  have four: "findOne (\<lambda>history st. Inr \<lparr>rows = [Str ''a'', Str ''b''], insertId = None, rowsAffected = None\<rparr>)
        Map.empty \<lparr>className = ''User'', static_tableName = None\<rparr>
        (Some \<lparr>where_opt = Some [(''id'', Num 7)], limit = Some 10, offset = None, order = None\<rparr>)
        \<lparr>initialized = True, executed = []\<rparr>
       = (Inr (Str ''a''),
          \<lparr>initialized = True, executed = [(''SELECT * FROM user WHERE id = ? LIMIT ?'', [Num 7, Num 1])]\<rparr>)"
    by (simp add: findOne_def findAll_def getTableName_def getTableMetadata_def or_str_def
        toLowerCase_def buildSelect_def append_where_def buildWhereClause_def execute_def)
  from findOne_findAll [of eng tables cls options db] two three four show ?thesis by blast
qed

end
